theory Spec2Isabelle
  imports Complex_Main "HOL-Library.Sublist" "HOL-Library.Char_ord" "HOL-Library.List_Lexorder"
begin

section \<open>Python values and library operations used by main.py\<close>

text \<open>
  Strings are \<open>char list\<close>; a character of the model is a code point below 256, so the
  model covers the Python strings made of such code points.
\<close>

text \<open>
  \<^verbatim>\<open>str.replace(old, new)\<close>: scans from the left, replaces every non-overlapping
  occurrence of \<open>old\<close>; with an empty \<open>old\<close> it inserts \<open>new\<close> around every character.
\<close>

function str_replace :: "string \<Rightarrow> string \<Rightarrow> string \<Rightarrow> string" where
  "str_replace old new [] = (if old = [] then new else [])"
| "str_replace old new (c # cs) =
     (if old = [] then new @ c # str_replace old new cs
      else if prefix old (c # cs) then new @ str_replace old new (drop (length old) (c # cs))
      else c # str_replace old new cs)"
  by pat_completeness auto
termination
  by (relation "measure (\<lambda>(old, new, s). length s)") auto

declare str_replace.simps [simp del]

text \<open>\<^verbatim>\<open>str.endswith(suf)\<close>.\<close>

definition endswith :: "string \<Rightarrow> string \<Rightarrow> bool" where
  "endswith s suf = suffix suf s"


text \<open>
  The values that travel through the handlers: JSON payloads of the vendor, attribute
  values of a tick, and the dictionaries and lists the handlers return. Python floats
  are modelled as real numbers: the binary rounding of each float operation is not part
  of the model.
\<close>

datatype pyval =
    PNone
  | PBool bool
  | PInt int
  | PFloat real
  | PStr string
  | PList "pyval list"
  | PDict "(string \<times> pyval) list"

text \<open>Exceptions, each with the text that \<^verbatim>\<open>str(e)\<close> gives.\<close>

datatype exn =
    TypeError string
  | KeyError string
  | IndexError string
  | AttributeError string
  | Raised string

fun exn_str :: "exn \<Rightarrow> string" where
  "exn_str (TypeError m) = m"
| "exn_str (KeyError m) = m"
| "exn_str (IndexError m) = m"
| "exn_str (AttributeError m) = m"
| "exn_str (Raised m) = m"

text \<open>Sequencing of steps that may raise: the first exception ends the sequence.\<close>

definition bind_exn :: "exn + 'a \<Rightarrow> ('a \<Rightarrow> exn + 'b) \<Rightarrow> exn + 'b" where
  "bind_exn m f = (case m of Inl e \<Rightarrow> Inl e | Inr x \<Rightarrow> f x)"

fun type_name :: "pyval \<Rightarrow> string" where
  "type_name PNone = ''NoneType''"
| "type_name (PBool b) = ''bool''"
| "type_name (PInt i) = ''int''"
| "type_name (PFloat x) = ''float''"
| "type_name (PStr s) = ''str''"
| "type_name (PList xs) = ''list''"
| "type_name (PDict kvs) = ''dict''"

text \<open>\<^verbatim>\<open>d.get(key, default)\<close> on a dictionary given as an association list.\<close>

definition dict_get :: "(string \<times> pyval) list \<Rightarrow> string \<Rightarrow> pyval \<Rightarrow> pyval" where
  "dict_get kvs k dflt = (case map_of kvs k of Some v \<Rightarrow> v | None \<Rightarrow> dflt)"

text \<open>\<^verbatim>\<open>x.get(key, default)\<close> on any value: only a dictionary has the method.\<close>

fun py_get :: "pyval \<Rightarrow> string \<Rightarrow> pyval \<Rightarrow> exn + pyval" where
  "py_get (PDict kvs) k dflt = Inr (dict_get kvs k dflt)"
| "py_get v k dflt =
     Inl (AttributeError ([CHR 0x27] @ type_name v @ [CHR 0x27] @ '' object has no attribute '' @ [CHR 0x27] @ ''get'' @ [CHR 0x27]))"

text \<open>\<^verbatim>\<open>for row in x\<close>: the sequence of items the loop visits.\<close>

fun py_iter :: "pyval \<Rightarrow> exn + pyval list" where
  "py_iter (PList xs) = Inr xs"
| "py_iter (PStr s) = Inr (map (\<lambda>c. PStr [c]) s)"
| "py_iter (PDict kvs) = Inr (map (\<lambda>kv. PStr (fst kv)) kvs)"
| "py_iter v = Inl (TypeError ([CHR 0x27] @ type_name v @ [CHR 0x27] @ '' object is not iterable''))"

text \<open>\<^verbatim>\<open>len(x)\<close>.\<close>

fun py_len :: "pyval \<Rightarrow> exn + nat" where
  "py_len (PList xs) = Inr (length xs)"
| "py_len (PStr s) = Inr (length s)"
| "py_len (PDict kvs) = Inr (length kvs)"
| "py_len v = Inl (TypeError (''object of type '' @ [CHR 0x27] @ type_name v @ [CHR 0x27] @ '' has no len()''))"

text \<open>Decimal digits, as \<^verbatim>\<open>str(n)\<close> and the date formats print them.\<close>

definition digit :: "nat \<Rightarrow> char" where
  "digit n = char_of (48 + n mod 10)"

function decimal :: "nat \<Rightarrow> string" where
  "decimal n = (if n < 10 then [digit n] else decimal (n div 10) @ [digit n])"
  by pat_completeness auto
termination
  by (relation "measure id") auto

declare decimal.simps [simp del]

text \<open>
  \<^verbatim>\<open>x[i]\<close> for a literal index \<open>i \<ge> 0\<close>. A dictionary decoded from JSON has string
  keys only, so an integer key is never found.
\<close>

fun py_index :: "pyval \<Rightarrow> nat \<Rightarrow> exn + pyval" where
  "py_index (PList xs) i =
     (if i < length xs then Inr (xs ! i) else Inl (IndexError ''list index out of range''))"
| "py_index (PStr s) i =
     (if i < length s then Inr (PStr [s ! i]) else Inl (IndexError ''string index out of range''))"
| "py_index (PDict kvs) i = Inl (KeyError (decimal i))"
| "py_index v i = Inl (TypeError ([CHR 0x27] @ type_name v @ [CHR 0x27] @ '' object is not subscriptable''))"


section \<open>Calendar dates, rounding and random numbers\<close>

text \<open>
  A \<^verbatim>\<open>datetime\<close> is used by the program only through whole-day subtraction and the
  date directives of \<^verbatim>\<open>strftime\<close>, so the model keeps its calendar date. The model
  covers the dates of the proleptic Gregorian calendar that Python supports (years 1 to
  9999) and subtractions that stay within them.
\<close>

record date =
  year :: nat
  month :: nat
  day :: nat

definition is_leap :: "nat \<Rightarrow> bool" where
  "is_leap y \<longleftrightarrow> y mod 4 = 0 \<and> (y mod 100 \<noteq> 0 \<or> y mod 400 = 0)"

definition days_in_month :: "nat \<Rightarrow> nat \<Rightarrow> nat" where
  "days_in_month y m =
     (if m = 2 then (if is_leap y then 29 else 28)
      else if m = 4 \<or> m = 6 \<or> m = 9 \<or> m = 11 then 30
      else 31)"

definition valid_date :: "date \<Rightarrow> bool" where
  "valid_date d \<longleftrightarrow>
     1 \<le> year d \<and> year d \<le> 9999 \<and> 1 \<le> month d \<and> month d \<le> 12 \<and>
     1 \<le> day d \<and> day d \<le> days_in_month (year d) (month d)"

definition prev_day :: "date \<Rightarrow> date" where
  "prev_day d =
     (if 1 < day d then d\<lparr>day := day d - 1\<rparr>
      else if 1 < month d then
        \<lparr>year = year d, month = month d - 1, day = days_in_month (year d) (month d - 1)\<rparr>
      else \<lparr>year = year d - 1, month = 12, day = 31\<rparr>)"

text \<open>\<^verbatim>\<open>d - timedelta(days=n)\<close>.\<close>

fun minus_days :: "date \<Rightarrow> nat \<Rightarrow> date" where
  "minus_days d 0 = d"
| "minus_days d (Suc n) = minus_days (prev_day d) n"

declare minus_days.simps [simp del]

definition pad2 :: "nat \<Rightarrow> string" where
  "pad2 n = [digit (n div 10), digit n]"

definition pad4 :: "nat \<Rightarrow> string" where
  "pad4 n = [digit (n div 1000), digit (n div 100), digit (n div 10), digit n]"

text \<open>
  \<^verbatim>\<open>d.strftime(fmt)\<close> for the directives the program uses: \<^verbatim>\<open>%Y\<close> (year with
  century, four digits from the year 1000 on), \<^verbatim>\<open>%y\<close> (year without century),
  \<^verbatim>\<open>%m\<close> and \<^verbatim>\<open>%d\<close>, each in two digits; every other character is copied.
\<close>

fun strftime :: "string \<Rightarrow> date \<Rightarrow> string" where
  "strftime [] d = []"
| "strftime [c] d = [c]"
| "strftime (c # e # fmt) d =
     (if c = CHR ''%'' \<and> e = CHR ''Y'' then pad4 (year d) @ strftime fmt d
      else if c = CHR ''%'' \<and> e = CHR ''y'' then pad2 (year d mod 100) @ strftime fmt d
      else if c = CHR ''%'' \<and> e = CHR ''m'' then pad2 (month d) @ strftime fmt d
      else if c = CHR ''%'' \<and> e = CHR ''d'' then pad2 (day d) @ strftime fmt d
      else c # strftime (e # fmt) d)"

declare strftime.simps [simp del]

text \<open>
  \<^verbatim>\<open>round(x, ndigits)\<close> on a float: to the nearest multiple of \<open>10 ^ -ndigits\<close>, a tie
  going to the even neighbour.
\<close>

definition round_half_even :: "real \<Rightarrow> int" where
  "round_half_even y =
     (let f = \<lfloor>y\<rfloor>; r = y - of_int f
      in if r < 1 / 2 then f else if 1 / 2 < r then f + 1 else if even f then f else f + 1)"

definition py_round :: "real \<Rightarrow> nat \<Rightarrow> real" where
  "py_round x ndigits = of_int (round_half_even (x * 10 ^ ndigits)) / 10 ^ ndigits"

text \<open>\<^verbatim>\<open>int(x)\<close> on a float truncates towards zero.\<close>

definition py_int :: "real \<Rightarrow> int" where
  "py_int x = (if 0 \<le> x then \<lfloor>x\<rfloor> else \<lceil>x\<rceil>)"

text \<open>
  \<^verbatim>\<open>random.uniform(a, b)\<close> is \<^verbatim>\<open>a + (b - a) * random()\<close>; its argument \<open>r\<close> here
  is the value \<^verbatim>\<open>random()\<close> returned.
\<close>

definition uniform :: "real \<Rightarrow> real \<Rightarrow> real \<Rightarrow> real" where
  "uniform r a b = a + (b - a) * r"

section \<open>Configuration and collaborators\<close>

definition TD_PORT :: nat where
  "TD_PORT = 8086"

definition TD_HISTORY_URL :: string where
  "TD_HISTORY_URL = ''https://history.truedata.in/gethistory''"

definition TD_FUNDAMENTAL_URL :: string where
  "TD_FUNDAMENTAL_URL = ''https://api.truedata.in/fundamental''"

text \<open>A tick object: its attributes by name.\<close>

type_synonym tick = "string \<rightharpoonup> pyval"

text \<open>
  The vendor session object. \<open>start_live_data\<close> returns the request identifiers or
  raises. \<open>live_data\<close> is the tick cache, which the vendor's own thread fills: its
  argument is the time in milliseconds the handler has slept since it subscribed.
\<close>

record td_handle =
  start_live_data :: "string list \<Rightarrow> exn + int list"
  live_data :: "nat \<Rightarrow> int \<rightharpoonup> tick"

text \<open>An HTTP response: its status code and what \<^verbatim>\<open>response.json()\<close> gives.\<close>

record http_response =
  status_code :: int
  json :: "exn + pyval"

text \<open>
  What a handler reads from outside: the two environment variables, the global session
  object, the HTTP client (\<^verbatim>\<open>requests.get(url, params=..., timeout=...)\<close>), the
  clock, and the successive values of \<^verbatim>\<open>random.random()\<close> during the request.
\<close>

record env =
  TD_USER :: "string option"
  TD_PASS :: "string option"
  td_app :: "td_handle option"
  requests_get :: "string \<Rightarrow> (string \<times> pyval) list \<Rightarrow> nat \<Rightarrow> exn + http_response"
  now :: date
  random :: "nat \<Rightarrow> real"

text \<open>
  The calls a handler makes to the outside, in order: the session constructor (user,
  password, port), a subscription, a sleep (in milliseconds), and an HTTP GET (URL,
  query parameters, timeout in seconds).
\<close>

datatype event =
    Connect string "string option" nat
  | StartLiveData "string list"
  | Sleep nat
  | HttpGet string "(string \<times> pyval) list" nat

definition opt_str :: "string option \<Rightarrow> pyval" where
  "opt_str x = (case x of None \<Rightarrow> PNone | Some s \<Rightarrow> PStr s)"

section \<open>Symbol mapping and helpers\<close>

definition INDEX_MAP :: "(string \<times> string) list" where
  "INDEX_MAP =
     [(''^NSEI'', ''NIFTY 50''),
      (''^BSESN'', ''SENSEX''),
      (''NIFTY_50'', ''NIFTY 50''),
      (''NIFTY_BANK'', ''BANKNIFTY'')]"

definition get_clean_symbol :: "string \<Rightarrow> string" where
  "get_clean_symbol symbol =
     (case map_of INDEX_MAP symbol of
        Some v \<Rightarrow> v
      | None \<Rightarrow> str_replace ''.BO'' '''' (str_replace ''.NS'' '''' symbol))"

definition is_indian_stock :: "string \<Rightarrow> bool" where
  "is_indian_stock symbol \<longleftrightarrow>
     endswith symbol ''.NS'' \<or> endswith symbol ''.BO'' \<or> symbol \<in> set (map fst INDEX_MAP)"


text \<open>
  The loop of \<^verbatim>\<open>generate_mock_history\<close> over the remaining values of \<open>i\<close>, with the
  running price. Iteration \<open>i\<close> draws twice from the random source: for the price step
  and for the volume.
\<close>

fun mock_candles :: "date \<Rightarrow> (nat \<Rightarrow> real) \<Rightarrow> nat list \<Rightarrow> real \<Rightarrow> pyval list" where
  "mock_candles nw rnd [] price = []"
| "mock_candles nw rnd (i # rest) price =
     (let dt = minus_days nw (30 - i);
          price = price * (1 + (rnd (2 * i) - 0.5) * 0.03)
      in PDict
           [(''date'', PStr (strftime ''%Y-%m-%d'' dt)),
            (''open'', PFloat (py_round (price * 0.99) 2)),
            (''high'', PFloat (py_round (price * 1.01) 2)),
            (''low'', PFloat (py_round (price * 0.98) 2)),
            (''close'', PFloat (py_round price 2)),
            (''volume'', PInt (py_int (uniform (rnd (2 * i + 1)) 1000 10000)))]
         # mock_candles nw rnd rest price)"

definition generate_mock_history :: "real \<Rightarrow> date \<Rightarrow> (nat \<Rightarrow> real) \<Rightarrow> pyval list" where
  "generate_mock_history base_price nw rnd = mock_candles nw rnd [0..<30] base_price"

section \<open>Startup\<close>

text \<open>
  \<^verbatim>\<open>startup_event\<close>: the first argument is the constructor of the vendor session
  (\<^verbatim>\<open>TD(user, password, live_port=...)\<close>). The result is the value of the global
  \<^verbatim>\<open>td_app\<close> afterwards, or an exception that leaves the hook. An unset or empty
  \<^verbatim>\<open>TD_USER\<close> is false in the \<^verbatim>\<open>if\<close>.
\<close>

definition startup_event ::
  "(string \<Rightarrow> string option \<Rightarrow> nat \<Rightarrow> exn + td_handle) \<Rightarrow> string option \<Rightarrow> string option
     \<Rightarrow> event list \<times> (exn + td_handle option)" where
  "startup_event TD user pass =
     (case user of
        None \<Rightarrow> ([], Inr None)
      | Some u \<Rightarrow>
          if u = [] then ([], Inr None)
          else
            ([Connect u pass TD_PORT],
             case TD u pass TD_PORT of
               Inl e \<Rightarrow> Inr None
             | Inr h \<Rightarrow> Inr (Some h)))"

section \<open>Feature 1: live quote and order book\<close>

text \<open>\<^verbatim>\<open>getattr(tick, name, 0)\<close>.\<close>

definition getattr :: "tick \<Rightarrow> string \<Rightarrow> pyval \<Rightarrow> pyval" where
  "getattr t name dflt = (case t name of Some v \<Rightarrow> v | None \<Rightarrow> dflt)"

definition level :: "tick \<Rightarrow> string \<Rightarrow> pyval" where
  "level t side =
     PDict [(''price'', getattr t (side @ ''_rate'') (PInt 0)),
            (''qty'', getattr t (side @ ''_qty'') (PInt 0))]"

definition orderbook :: "tick \<Rightarrow> pyval" where
  "orderbook t =
     PDict
       [(''bids'', PList [level t ''bid1'', level t ''bid2'', level t ''bid3'',
                          level t ''bid4'', level t ''bid5'']),
        (''asks'', PList [level t ''ask1'', level t ''ask2'', level t ''ask3'',
                          level t ''ask4'', level t ''ask5''])]"

definition status_response :: "string \<Rightarrow> string \<Rightarrow> pyval" where
  "status_response symbol status =
     PDict [(''symbol'', PStr symbol), (''price'', PInt 0), (''status'', PStr status)]"

definition tick_response :: "string \<Rightarrow> tick \<Rightarrow> pyval" where
  "tick_response symbol t =
     PDict
       [(''symbol'', PStr symbol),
        (''price'', getattr t ''ltp'' (PInt 0)),
        (''change'', getattr t ''change'' (PInt 0)),
        (''change_percent'', getattr t ''change_perc'' (PInt 0)),
        (''volume'', getattr t ''volume'' (PInt 0)),
        (''high'', getattr t ''day_high'' (PInt 0)),
        (''low'', getattr t ''day_low'' (PInt 0)),
        (''orderbook'', orderbook t),
        (''currency'', PStr ''INR''),
        (''source'', PStr ''TrueData'')]"

text \<open>
  The body of the \<^verbatim>\<open>try\<close> in \<^verbatim>\<open>get_quote\<close>: the calls it makes and what it
  returns or raises.
\<close>

definition quote_try :: "td_handle \<Rightarrow> string \<Rightarrow> event list \<times> (exn + pyval)" where
  "quote_try td symbol =
     (let clean_sym = get_clean_symbol symbol
      in case start_live_data td [clean_sym] of
           Inl e \<Rightarrow> ([StartLiveData [clean_sym]], Inl e)
         | Inr req_ids \<Rightarrow>
             (case req_ids of
                [] \<Rightarrow> ([StartLiveData [clean_sym]], Inr (status_response symbol ''Invalid Symbol''))
              | req_id # _ \<Rightarrow>
                  let slept = (if live_data td 0 req_id = None then 200 else 0)
                  in (StartLiveData [clean_sym] # (if slept = 0 then [] else [Sleep slept]),
                      case live_data td slept req_id of
                        Some t \<Rightarrow> Inr (tick_response symbol t)
                      | None \<Rightarrow> Inr (status_response symbol ''Waiting for tick...''))))"

definition get_quote :: "env \<Rightarrow> string \<Rightarrow> event list \<times> (exn + pyval)" where
  "get_quote w symbol =
     (if is_indian_stock symbol then
        (case td_app w of
           None \<Rightarrow> ([], Inr (status_response symbol ''Disconnected''))
         | Some td \<Rightarrow>
             (case quote_try td symbol of
                (evs, Inr r) \<Rightarrow> (evs, Inr r)
              | (evs, Inl e) \<Rightarrow>
                  (evs, Inr (PDict [(''symbol'', PStr symbol), (''price'', PInt 0),
                                    (''error'', PStr (exn_str e))]))))
      else
        ([], Inr (PDict
           [(''symbol'', PStr symbol),
            (''price'', PFloat (uniform (random w 0) 100 3000)),
            (''change'', PFloat (uniform (random w 1) (- 5) 5)),
            (''change_percent'', PFloat (uniform (random w 2) (- 1) 1)),
            (''currency'', PStr ''USD''),
            (''source'', PStr ''Mock (US)'')])))"

section \<open>Feature 2: historical charts\<close>

text \<open>The loop over the rows of the payload; an exception in a row leaves the loop.\<close>

definition candle_of_row :: "pyval \<Rightarrow> nat \<Rightarrow> exn + pyval" where
  "candle_of_row row n =
     bind_exn (py_index row 0) (\<lambda>c0.
     bind_exn (py_index row 1) (\<lambda>c1.
     bind_exn (py_index row 2) (\<lambda>c2.
     bind_exn (py_index row 3) (\<lambda>c3.
     bind_exn (py_index row 4) (\<lambda>c4.
     bind_exn (if 5 < n then py_index row 5 else Inr (PInt 0)) (\<lambda>c5.
       Inr (PDict [(''date'', c0), (''open'', c1), (''high'', c2), (''low'', c3),
                   (''close'', c4), (''volume'', c5)])))))))"

fun chart_rows :: "pyval list \<Rightarrow> exn + pyval list" where
  "chart_rows [] = Inr []"
| "chart_rows (row # records) =
     bind_exn (py_len row) (\<lambda>n.
       if 5 \<le> n then
         bind_exn (candle_of_row row n) (\<lambda>c.
         bind_exn (chart_rows records) (\<lambda>cs. Inr (c # cs)))
       else chart_rows records)"

definition history_range :: "string \<Rightarrow> nat \<times> string" where
  "history_range period =
     (if period = ''1d'' then (5, ''15min'')
      else if period = ''1y'' then (365, ''EOD'')
      else (30, ''EOD''))"

definition history_params :: "env \<Rightarrow> string \<Rightarrow> string \<Rightarrow> (string \<times> pyval) list" where
  "history_params w symbol period =
     (let clean_sym = get_clean_symbol symbol;
          end_date = now w;
          start_date = minus_days end_date (fst (history_range period));
          resolution = snd (history_range period)
      in [(''symbol'', PStr clean_sym),
          (''resolution'', PStr resolution),
          (''from'', PStr (strftime ''%y%m%d'' start_date)),
          (''to'', PStr (strftime ''%y%m%d'' end_date)),
          (''response'', PStr ''json''),
          (''user'', opt_str (TD_USER w)),
          (''pass'', opt_str (TD_PASS w))])"

text \<open>The body of the \<^verbatim>\<open>try\<close> in \<^verbatim>\<open>get_history\<close>.\<close>

definition history_try :: "env \<Rightarrow> string \<Rightarrow> string \<Rightarrow> event list \<times> (exn + pyval)" where
  "history_try w symbol period =
     (let params = history_params w symbol period
      in ([HttpGet TD_HISTORY_URL params 5],
          case requests_get w TD_HISTORY_URL params 5 of
            Inl e \<Rightarrow> Inl e
          | Inr response \<Rightarrow>
              if status_code response = 200 then
                bind_exn (json response) (\<lambda>data.
                bind_exn (py_get data ''Records'' (PList [])) (\<lambda>records.
                bind_exn (py_iter records) (\<lambda>rows.
                bind_exn (chart_rows rows) (\<lambda>chart_data.
                  Inr (PList chart_data)))))
              else Inr (PList (generate_mock_history 150 (now w) (random w)))))"

definition get_history :: "env \<Rightarrow> string \<Rightarrow> string \<Rightarrow> event list \<times> (exn + pyval)" where
  "get_history w symbol period =
     (if \<not> is_indian_stock symbol then
        ([], Inr (PList (generate_mock_history 150 (now w) (random w))))
      else
        (case history_try w symbol period of
           (evs, Inr r) \<Rightarrow> (evs, Inr r)
         | (evs, Inl e) \<Rightarrow> (evs, Inr (PList (generate_mock_history 150 (now w) (random w))))))"

section \<open>Feature 3: fundamentals\<close>

definition empty_data :: "string \<Rightarrow> pyval" where
  "empty_data symbol =
     PDict
       [(''market_cap'', PInt 0),
        (''pe_ratio'', PInt 0),
        (''peg_ratio'', PInt 0),
        (''book_value'', PInt 0),
        (''dividend_yield'', PInt 0),
        (''eps'', PInt 0),
        (''profit_margin'', PInt 0),
        (''roe'', PInt 0),
        (''debt_to_equity'', PInt 0),
        (''shareholding'',
           PDict [(''promoters'', PInt 0), (''institutions'', PInt 0), (''public'', PInt 0)]),
        (''forecast'',
           PDict [(''recommendation'', PStr ''WAITING''),
                  (''targetMean'', PInt 0),
                  (''targetLow'', PInt 0),
                  (''targetHigh'', PInt 0)]),
        (''currency'', PStr (if is_indian_stock symbol then ''INR'' else ''USD''))]"

text \<open>
  The dictionary built from the vendor's payload. Every field is read with
  \<^verbatim>\<open>real_data.get\<close>, which exists only when the payload is a JSON object.
\<close>

definition overlay :: "pyval \<Rightarrow> exn + pyval" where
  "overlay real_data =
     bind_exn (py_get real_data ''market_cap'' (PInt 0)) (\<lambda>market_cap.
     bind_exn (py_get real_data ''pe'' (PInt 0)) (\<lambda>pe.
     bind_exn (py_get real_data ''peg'' (PInt 0)) (\<lambda>peg.
     bind_exn (py_get real_data ''book_value'' (PInt 0)) (\<lambda>book_value.
     bind_exn (py_get real_data ''dividend_yield'' (PInt 0)) (\<lambda>dividend_yield.
     bind_exn (py_get real_data ''eps'' (PInt 0)) (\<lambda>eps.
     bind_exn (py_get real_data ''profit_margin'' (PInt 0)) (\<lambda>profit_margin.
     bind_exn (py_get real_data ''roe'' (PInt 0)) (\<lambda>roe.
     bind_exn (py_get real_data ''debt_to_equity'' (PInt 0)) (\<lambda>debt_to_equity.
     bind_exn (py_get real_data ''shareholding'' (PDict [])) (\<lambda>shareholding.
     bind_exn (py_get real_data ''recommendation'' (PStr ''N/A'')) (\<lambda>recommendation.
     bind_exn (py_get real_data ''target_price'' (PInt 0)) (\<lambda>target_price.
     bind_exn (py_get real_data ''target_low'' (PInt 0)) (\<lambda>target_low.
     bind_exn (py_get real_data ''target_high'' (PInt 0)) (\<lambda>target_high.
        Inr (PDict
          [(''market_cap'', market_cap),
           (''pe_ratio'', pe),
           (''peg_ratio'', peg),
           (''book_value'', book_value),
           (''dividend_yield'', dividend_yield),
           (''eps'', eps),
           (''profit_margin'', profit_margin),
           (''roe'', roe),
           (''debt_to_equity'', debt_to_equity),
           (''shareholding'', shareholding),
           (''forecast'',
              PDict [(''recommendation'', recommendation),
                     (''targetMean'', target_price),
                     (''targetLow'', target_low),
                     (''targetHigh'', target_high)]),
           (''currency'', PStr ''INR'')])))))))))))))))"

definition fundamentals_params :: "env \<Rightarrow> string \<Rightarrow> (string \<times> pyval) list" where
  "fundamentals_params w symbol =
     [(''symbol'', PStr (get_clean_symbol symbol)),
      (''user'', opt_str (TD_USER w)),
      (''pass'', opt_str (TD_PASS w))]"

text \<open>The body of the \<^verbatim>\<open>try\<close> in \<^verbatim>\<open>get_fundamentals\<close>.\<close>

definition fundamentals_try :: "env \<Rightarrow> string \<Rightarrow> event list \<times> (exn + pyval)" where
  "fundamentals_try w symbol =
     (let url = TD_FUNDAMENTAL_URL @ ''/company_info'';
          params = fundamentals_params w symbol
      in ([HttpGet url params 3],
          case requests_get w url params 3 of
            Inl e \<Rightarrow> Inl e
          | Inr response \<Rightarrow>
              if status_code response = 200 then
                bind_exn (json response) (\<lambda>real_data. overlay real_data)
              else Inr (empty_data symbol)))"

definition get_fundamentals :: "env \<Rightarrow> string \<Rightarrow> event list \<times> (exn + pyval)" where
  "get_fundamentals w symbol =
     (if is_indian_stock symbol then
        (case fundamentals_try w symbol of
           (evs, Inr r) \<Rightarrow> (evs, Inr r)
         | (evs, Inl e) \<Rightarrow> (evs, Inr (empty_data symbol)))
      else ([], Inr (empty_data symbol)))"


section \<open>The router as the specification words it\<close>

text \<open>
  The specification's canonical symbol: the alias-table value when the symbol is a key,
  else the symbol with each suffix removed where it matches the trailing characters
  exactly. This definition follows the specification, not the code; it is compared with
  \<open>get_clean_symbol\<close> below.
\<close>

definition strip_suffix_spec :: "string \<Rightarrow> string \<Rightarrow> string" where
  "strip_suffix_spec suf s = (if endswith s suf then take (length s - length suf) s else s)"

definition canonical_symbol_spec :: "string \<Rightarrow> string" where
  "canonical_symbol_spec s =
     (case map_of INDEX_MAP s of
        Some v \<Rightarrow> v
      | None \<Rightarrow> strip_suffix_spec ''.BO'' (strip_suffix_spec ''.NS'' s))"

section \<open>Reading a response, and sample collaborators\<close>

text \<open>The value of a key of a handler's response, when the response is a dictionary.\<close>

definition response_field :: "exn + pyval \<Rightarrow> string \<Rightarrow> pyval option" where
  "response_field r k = (case r of Inr (PDict kvs) \<Rightarrow> map_of kvs k | _ \<Rightarrow> None)"

text \<open>A tick that carries a last price and the first bid level only.\<close>

definition sample_tick :: tick where
  "sample_tick =
     [''ltp'' \<mapsto> PFloat 2500.5, ''bid1_rate'' \<mapsto> PFloat 2500, ''bid1_qty'' \<mapsto> PInt 10]"

text \<open>A session whose tick for request 7 arrives while the handler sleeps.\<close>

definition sample_td :: td_handle where
  "sample_td =
     \<lparr>start_live_data = (\<lambda>syms. Inr [7]),
      live_data = (\<lambda>ms. if ms < 200 then Map.empty else [7 \<mapsto> sample_tick])\<rparr>"

text \<open>
  Sessions that return no identifier, never deliver a tick, hold the tick from the
  start, and raise.
\<close>

definition td_no_ids :: td_handle where
  "td_no_ids = \<lparr>start_live_data = (\<lambda>syms. Inr []), live_data = (\<lambda>ms. Map.empty)\<rparr>"

definition td_silent :: td_handle where
  "td_silent = \<lparr>start_live_data = (\<lambda>syms. Inr [7]), live_data = (\<lambda>ms. Map.empty)\<rparr>"

definition td_ready :: td_handle where
  "td_ready =
     \<lparr>start_live_data = (\<lambda>syms. Inr [7]), live_data = (\<lambda>ms. [7 \<mapsto> sample_tick])\<rparr>"

definition td_failing :: td_handle where
  "td_failing =
     \<lparr>start_live_data = (\<lambda>syms. Inl (Raised ''connection lost'')),
      live_data = (\<lambda>ms. Map.empty)\<rparr>"

text \<open>
  An environment without credentials and without a session, whose HTTP client times
  out, on 5 March 2024, every random draw being 0.5.
\<close>

definition sample_env :: env where
  "sample_env =
     \<lparr>TD_USER = None, TD_PASS = None, td_app = None,
      requests_get = (\<lambda>url params timeout. Inl (Raised ''timed out'')),
      now = \<lparr>year = 2024, month = 3, day = 5\<rparr>,
      random = (\<lambda>n. 1 / 2)\<rparr>"

text \<open>
  The candle the specification describes for a payload row of at least 5 fields: date,
  open, high, low, close, and the volume, 0 when the row has no sixth field.
\<close>

definition row_candle :: "pyval list \<Rightarrow> pyval" where
  "row_candle xs =
     PDict [(''date'', xs ! 0), (''open'', xs ! 1), (''high'', xs ! 2), (''low'', xs ! 3),
            (''close'', xs ! 4), (''volume'', if 5 < length xs then xs ! 5 else PInt 0)]"

text \<open>An HTTP client that answers every request with status 200 and the given payload.\<close>

definition http_ok ::
  "pyval \<Rightarrow> string \<Rightarrow> (string \<times> pyval) list \<Rightarrow> nat \<Rightarrow> exn + http_response" where
  "http_ok payload url params timeout = Inr \<lparr>status_code = 200, json = Inr payload\<rparr>"

text \<open>A history payload of three rows, the second with two fields only.\<close>

definition sample_rows :: "pyval list list" where
  "sample_rows =
     [[PStr ''2024-03-01'', PFloat 2900, PFloat 2950, PFloat 2880, PFloat 2941.5, PInt 1200],
      [PStr ''2024-03-04'', PFloat 2941.5],
      [PStr ''2024-03-05'', PFloat 2940, PFloat 2990, PFloat 2935, PFloat 2980]]"

definition sample_history_payload :: pyval where
  "sample_history_payload =
     PDict [(''status'', PStr ''Success''), (''Records'', PList (map PList sample_rows))]"

text \<open>A fundamentals payload with one ratio and a shareholding of promoters only.\<close>

definition sample_fundamentals_payload :: pyval where
  "sample_fundamentals_payload =
     PDict [(''pe'', PFloat 24.5), (''shareholding'', PDict [(''promoters'', PFloat 50.3)])]"

text \<open>A session constructor that connects.\<close>

definition sample_TD :: "string \<Rightarrow> string option \<Rightarrow> nat \<Rightarrow> exn + td_handle" where
  "sample_TD user pass port = Inr sample_td"

text \<open>The calendar order of dates, and the date string of a candle.\<close>

definition date_less :: "date \<Rightarrow> date \<Rightarrow> bool" where
  "date_less a b \<longleftrightarrow>
     year a < year b \<or>
     year a = year b \<and> (month a < month b \<or> month a = month b \<and> day a < day b)"

definition candle_date :: "pyval \<Rightarrow> string" where
  "candle_date c =
     (case c of
        PDict kvs \<Rightarrow> (case map_of kvs ''date'' of Some (PStr d) \<Rightarrow> d | _ \<Rightarrow> [])
      | _ \<Rightarrow> [])"

text \<open>
  What the specification says of one mock candle: the six fields; open, high and low
  within rounding of 0.99, 1.01 and 0.98 times the close; low below open and close, and
  these below high; the volume within the band of the uniform sample.
\<close>

definition candle_ok :: "pyval \<Rightarrow> bool" where
  "candle_ok c \<longleftrightarrow>
     (\<exists>d opn hi lo cl vol.
        c = PDict [(''date'', PStr d), (''open'', PFloat opn), (''high'', PFloat hi),
                   (''low'', PFloat lo), (''close'', PFloat cl), (''volume'', PInt vol)] \<and>
        \<bar>opn - cl * 0.99\<bar> \<le> 0.0101 \<and> \<bar>hi - cl * 1.01\<bar> \<le> 0.0101 \<and>
        \<bar>lo - cl * 0.98\<bar> \<le> 0.0101 \<and>
        lo \<le> opn \<and> opn \<le> hi \<and> lo \<le> cl \<and> cl \<le> hi \<and> 1000 \<le> vol \<and> vol \<le> 10000)"

section \<open>Facts about the sample inputs\<close>

lemma is_indian_RELIANCE: "is_indian_stock ''RELIANCE.NS''"
  by code_simp

lemma clean_RELIANCE: "get_clean_symbol ''RELIANCE.NS'' = ''RELIANCE''"
  by code_simp

lemma not_indian_AAPL: "\<not> is_indian_stock ''AAPL''"
  by code_simp

section \<open>Router\<close>

text \<open>
  The routing decision is exactly the suffix-or-alias test, and the empty symbol is
  routed to the mock path with itself as canonical symbol.
\<close>

lemma is_indian_stock_iff:
  "is_indian_stock s \<longleftrightarrow> suffix ''.NS'' s \<or> suffix ''.BO'' s \<or> s \<in> dom (map_of INDEX_MAP)"
  by (simp add: is_indian_stock_def endswith_def dom_map_of_conv_image_fst)

lemma empty_symbol: "\<not> is_indian_stock '''' \<and> get_clean_symbol '''' = ''''"
  by code_simp

text \<open>
  On a symbol that has no dot before its \<open>.NS\<close> or \<open>.BO\<close> suffix, the code and the
  specification's stripping agree: both return the part before the suffix.
\<close>

lemma append_neq_by_last: "suf \<noteq> [] \<Longrightarrow> last suf \<noteq> last k \<Longrightarrow> base @ suf \<noteq> k"
  by auto

lemma not_alias_suffixed:
  "map_of INDEX_MAP (base @ ''.NS'') = None" "map_of INDEX_MAP (base @ ''.BO'') = None"
  by (simp_all add: INDEX_MAP_def append_neq_by_last)

lemma str_replace_no_first:
  assumes "c \<notin> set s"
  shows "str_replace (c # old) new s = s"
  using assms
proof (induction s)
  case Nil
  show ?case by (simp add: str_replace.simps(1))
next
  case (Cons a s)
  then have "a \<noteq> c" "str_replace (c # old) new s = s" by auto
  then show ?case
    by (subst str_replace.simps(2)) simp
qed

lemma str_replace_strips_suffix:
  assumes "c \<notin> set base"
  shows "str_replace (c # old) [] (base @ c # old) = base"
  using assms
proof (induction base)
  case Nil
  have "str_replace (c # old) [] (c # old) = str_replace (c # old) [] []"
    by (subst str_replace.simps(2)) simp
  then show ?case by (simp add: str_replace.simps(1))
next
  case (Cons a base)
  then have "a \<noteq> c" "str_replace (c # old) [] (base @ c # old) = base" by auto
  then show ?case
    unfolding append_Cons by (subst str_replace.simps(2)) simp
qed

lemma no_dot_not_suffix: "CHR ''.'' \<notin> set s \<Longrightarrow> \<not> suffix (CHR ''.'' # t) s"
  by (auto simp: suffix_def)

lemma get_clean_symbol_plain:
  assumes "CHR ''.'' \<notin> set base"
  shows "get_clean_symbol (base @ ''.NS'') = base \<and> canonical_symbol_spec (base @ ''.NS'') = base \<and>
         get_clean_symbol (base @ ''.BO'') = base \<and> canonical_symbol_spec (base @ ''.BO'') = base"
proof -
  have a: "str_replace ''.NS'' [] (base @ ''.NS'') = base"
    using assms by (rule str_replace_strips_suffix)
  have b: "str_replace ''.BO'' [] base = base"
    using assms by (rule str_replace_no_first)
  have c: "str_replace ''.NS'' [] (base @ ''.BO'') = base @ ''.BO''"
  proof -
    have "str_replace ''.NS'' [] ''.BO'' = ''.BO''"
      by (simp add: str_replace.simps)
    have "str_replace ''.NS'' [] (xs @ ''.BO'') = xs @ ''.BO''" if "CHR ''.'' \<notin> set xs" for xs
      using that
    proof (induction xs)
      case Nil
      show ?case by (simp add: str_replace.simps)
    next
      case (Cons x xs)
      then have "x \<noteq> CHR ''.''" "str_replace ''.NS'' [] (xs @ ''.BO'') = xs @ ''.BO''" by auto
      then show ?case unfolding append_Cons by (subst str_replace.simps(2)) simp
    qed
    with assms show ?thesis by simp
  qed
  have d: "str_replace ''.BO'' [] (base @ ''.BO'') = base"
    using assms by (rule str_replace_strips_suffix)
  have e: "\<not> suffix ''.BO'' base" "\<not> suffix ''.NS'' (base @ ''.BO'')"
    using assms by (auto simp: suffix_def)
  have f: "suffix ''.NS'' (base @ ''.NS'')" "suffix ''.BO'' (base @ ''.BO'')"
    by (simp_all add: suffix_def)
  show ?thesis
    using a b c d e f
    by (simp add: get_clean_symbol_def canonical_symbol_spec_def strip_suffix_spec_def
          endswith_def not_alias_suffixed)
qed

text \<open>
  C1. The claim says that the canonical symbol of a symbol outside the alias table is the
  symbol with \<open>.NS\<close> and \<open>.BO\<close> removed only where they are its trailing characters.
  \<open>get_clean_symbol\<close> removes every occurrence: for \<open>B.BOX.NS\<close>, which is routed to the
  vendor, it returns \<open>BX\<close>, where the specification's stripping gives \<open>B.BOX\<close>.
\<close>

theorem get_clean_symbol_inner_occurrence:
  "is_indian_stock ''B.BOX.NS'' \<and> get_clean_symbol ''B.BOX.NS'' = ''BX'' \<and>
   canonical_symbol_spec ''B.BOX.NS'' = ''B.BOX''"
  by code_simp

section \<open>Quote\<close>

text \<open>
  C3. For a symbol routed to the vendor, \<open>get_quote\<close> always returns a response and
  never raises. Without a session it returns price 0 and status \<open>Disconnected\<close> and
  makes no call. When the subscription returns no identifier it returns price 0 and
  status \<open>Invalid Symbol\<close>. When no tick is cached it sleeps 200 ms once and looks
  again, once: if the tick is still absent it returns price 0 and status
  \<open>Waiting for tick...\<close>, and if the tick arrived during the sleep it returns the
  response built from that tick. When the tick is cached at the first look it does not
  sleep. When the subscription raises, it returns price 0 and the text of the exception
  under \<open>error\<close>.
\<close>

theorem quote_vendor_degraded_responses:
  assumes "is_indian_stock symbol"
  shows "(\<exists>r. snd (get_quote w symbol) = Inr r) \<and>
    (td_app w = None \<longrightarrow>
       get_quote w symbol =
         ([], Inr (PDict [(''symbol'', PStr symbol), (''price'', PInt 0),
                          (''status'', PStr ''Disconnected'')]))) \<and>
    (\<forall>td. td_app w = Some td \<longrightarrow>
       (start_live_data td [get_clean_symbol symbol] = Inr [] \<longrightarrow>
          get_quote w symbol =
            ([StartLiveData [get_clean_symbol symbol]],
             Inr (PDict [(''symbol'', PStr symbol), (''price'', PInt 0),
                         (''status'', PStr ''Invalid Symbol'')]))) \<and>
       (\<forall>req_id rest.
          start_live_data td [get_clean_symbol symbol] = Inr (req_id # rest) \<and>
          live_data td 0 req_id = None \<and> live_data td 200 req_id = None \<longrightarrow>
          get_quote w symbol =
            ([StartLiveData [get_clean_symbol symbol], Sleep 200],
             Inr (PDict [(''symbol'', PStr symbol), (''price'', PInt 0),
                         (''status'', PStr ''Waiting for tick...'')]))) \<and>
       (\<forall>req_id rest t.
          start_live_data td [get_clean_symbol symbol] = Inr (req_id # rest) \<and>
          live_data td 0 req_id = None \<and> live_data td 200 req_id = Some t \<longrightarrow>
          get_quote w symbol =
            ([StartLiveData [get_clean_symbol symbol], Sleep 200],
             Inr (tick_response symbol t))) \<and>
       (\<forall>req_id rest t.
          start_live_data td [get_clean_symbol symbol] = Inr (req_id # rest) \<and>
          live_data td 0 req_id = Some t \<longrightarrow>
          get_quote w symbol =
            ([StartLiveData [get_clean_symbol symbol]], Inr (tick_response symbol t))) \<and>
       (\<forall>e. start_live_data td [get_clean_symbol symbol] = Inl e \<longrightarrow>
          get_quote w symbol =
            ([StartLiveData [get_clean_symbol symbol]],
             Inr (PDict [(''symbol'', PStr symbol), (''price'', PInt 0),
                         (''error'', PStr (exn_str e))]))))"
  using assms
  by (auto simp: get_quote_def quote_try_def status_response_def Let_def
           split: option.splits sum.splits list.splits prod.splits)

theorem quote_vendor_degraded_responses_witness:
  "is_indian_stock ''RELIANCE.NS'' \<and>
   get_quote sample_env ''RELIANCE.NS'' =
     ([], Inr (PDict [(''symbol'', PStr ''RELIANCE.NS''), (''price'', PInt 0),
                      (''status'', PStr ''Disconnected'')])) \<and>
   get_quote (sample_env\<lparr>td_app := Some td_no_ids\<rparr>) ''RELIANCE.NS'' =
     ([StartLiveData [''RELIANCE'']],
      Inr (PDict [(''symbol'', PStr ''RELIANCE.NS''), (''price'', PInt 0),
                  (''status'', PStr ''Invalid Symbol'')])) \<and>
   get_quote (sample_env\<lparr>td_app := Some td_silent\<rparr>) ''RELIANCE.NS'' =
     ([StartLiveData [''RELIANCE''], Sleep 200],
      Inr (PDict [(''symbol'', PStr ''RELIANCE.NS''), (''price'', PInt 0),
                  (''status'', PStr ''Waiting for tick...'')])) \<and>
   get_quote (sample_env\<lparr>td_app := Some sample_td\<rparr>) ''RELIANCE.NS'' =
     ([StartLiveData [''RELIANCE''], Sleep 200],
      Inr (tick_response ''RELIANCE.NS'' sample_tick)) \<and>
   get_quote (sample_env\<lparr>td_app := Some td_ready\<rparr>) ''RELIANCE.NS'' =
     ([StartLiveData [''RELIANCE'']], Inr (tick_response ''RELIANCE.NS'' sample_tick)) \<and>
   get_quote (sample_env\<lparr>td_app := Some td_failing\<rparr>) ''RELIANCE.NS'' =
     ([StartLiveData [''RELIANCE'']],
      Inr (PDict [(''symbol'', PStr ''RELIANCE.NS''), (''price'', PInt 0),
                  (''error'', PStr ''connection lost'')]))"
proof -
  have h: "is_indian_stock ''RELIANCE.NS''" by (rule is_indian_RELIANCE)
  have a: "td_app sample_env = None" by (simp add: sample_env_def)
  have b: "start_live_data td_no_ids [get_clean_symbol ''RELIANCE.NS''] = Inr []"
    by (simp add: td_no_ids_def)
  have c: "start_live_data td_silent [get_clean_symbol ''RELIANCE.NS''] = Inr (7 # []) \<and>
           live_data td_silent 0 7 = None \<and> live_data td_silent 200 7 = None"
    by (simp add: td_silent_def)
  have d: "start_live_data td_failing [get_clean_symbol ''RELIANCE.NS'']
             = Inl (Raised ''connection lost'')"
    by (simp add: td_failing_def)
  have e: "start_live_data sample_td [get_clean_symbol ''RELIANCE.NS''] = Inr (7 # []) \<and>
           live_data sample_td 0 7 = None \<and> live_data sample_td 200 7 = Some sample_tick"
    by (simp add: sample_td_def)
  have f: "start_live_data td_ready [get_clean_symbol ''RELIANCE.NS''] = Inr (7 # []) \<and>
           live_data td_ready 0 7 = Some sample_tick"
    by (simp add: td_ready_def)
  from quote_vendor_degraded_responses [OF h, of sample_env] a
  have 1: "get_quote sample_env ''RELIANCE.NS'' =
     ([], Inr (PDict [(''symbol'', PStr ''RELIANCE.NS''), (''price'', PInt 0),
                      (''status'', PStr ''Disconnected'')]))" by blast
  from quote_vendor_degraded_responses [OF h, of "sample_env\<lparr>td_app := Some td_no_ids\<rparr>"] b
  have 2: "get_quote (sample_env\<lparr>td_app := Some td_no_ids\<rparr>) ''RELIANCE.NS'' =
     ([StartLiveData [''RELIANCE'']],
      Inr (PDict [(''symbol'', PStr ''RELIANCE.NS''), (''price'', PInt 0),
                  (''status'', PStr ''Invalid Symbol'')]))" by (simp add: clean_RELIANCE)
  from quote_vendor_degraded_responses [OF h, of "sample_env\<lparr>td_app := Some td_silent\<rparr>"] c
  have 3: "get_quote (sample_env\<lparr>td_app := Some td_silent\<rparr>) ''RELIANCE.NS'' =
     ([StartLiveData [''RELIANCE''], Sleep 200],
      Inr (PDict [(''symbol'', PStr ''RELIANCE.NS''), (''price'', PInt 0),
                  (''status'', PStr ''Waiting for tick...'')]))" by (simp add: clean_RELIANCE)
  from quote_vendor_degraded_responses [OF h, of "sample_env\<lparr>td_app := Some td_failing\<rparr>"] d
  have 4: "get_quote (sample_env\<lparr>td_app := Some td_failing\<rparr>) ''RELIANCE.NS'' =
     ([StartLiveData [''RELIANCE'']],
      Inr (PDict [(''symbol'', PStr ''RELIANCE.NS''), (''price'', PInt 0),
                  (''error'', PStr ''connection lost'')]))" by (simp add: clean_RELIANCE)
  from quote_vendor_degraded_responses [OF h, of "sample_env\<lparr>td_app := Some sample_td\<rparr>"] e
  have 5: "get_quote (sample_env\<lparr>td_app := Some sample_td\<rparr>) ''RELIANCE.NS'' =
     ([StartLiveData [''RELIANCE''], Sleep 200],
      Inr (tick_response ''RELIANCE.NS'' sample_tick))" by (simp add: clean_RELIANCE)
  from quote_vendor_degraded_responses [OF h, of "sample_env\<lparr>td_app := Some td_ready\<rparr>"] f
  have 6: "get_quote (sample_env\<lparr>td_app := Some td_ready\<rparr>) ''RELIANCE.NS'' =
     ([StartLiveData [''RELIANCE'']], Inr (tick_response ''RELIANCE.NS'' sample_tick))"
    by (simp add: clean_RELIANCE)
  from h 1 2 3 4 5 6 show ?thesis by blast
qed

lemma decimal_digits:
  "decimal (Suc 0) = ''1''" "decimal 1 = ''1''" "decimal 2 = ''2''" "decimal 3 = ''3''" "decimal 4 = ''4''" "decimal 5 = ''5''"
  by code_simp+

lemma upt_1_6: "[1..<6] = [1, 2, 3, 4, 5]" "[Suc 0..<6] = [1, 2, 3, 4, 5]"
  by code_simp+

lemma orderbook_levels:
  "orderbook t =
     PDict
       [(''bids'', PList (map (\<lambda>n. PDict [(''price'', getattr t (''bid'' @ decimal n @ ''_rate'') (PInt 0)),
                                            (''qty'', getattr t (''bid'' @ decimal n @ ''_qty'') (PInt 0))])
                              [1..<6])),
        (''asks'', PList (map (\<lambda>n. PDict [(''price'', getattr t (''ask'' @ decimal n @ ''_rate'') (PInt 0)),
                                            (''qty'', getattr t (''ask'' @ decimal n @ ''_qty'') (PInt 0))])
                              [1..<6]))]"
  by (simp add: orderbook_def level_def upt_1_6 decimal_digits)

lemma quote_tick_response:
  assumes "is_indian_stock symbol" and "td_app w = Some td"
    and "start_live_data td [get_clean_symbol symbol] = Inr (req_id # rest)"
    and "live_data td (if live_data td 0 req_id = None then 200 else 0) req_id = Some t"
  shows "snd (get_quote w symbol) = Inr (tick_response symbol t)"
  using assms
  by (auto simp: get_quote_def quote_try_def Let_def split: option.splits)

text \<open>A response that has an order book took it from a tick.\<close>

lemma quote_orderbook_origin:
  assumes "response_field (snd (get_quote w symbol)) ''orderbook'' = Some ob"
  shows "\<exists>t. ob = orderbook t"
  using assms
  by (auto simp: get_quote_def quote_try_def Let_def response_field_def status_response_def tick_response_def
           split: option.splits sum.splits list.splits if_splits)

text \<open>
  Outside the tick branch (the mock path, no session, no identifier, no tick at the
  second look, an exception) the response has no order book.
\<close>

lemma quote_no_orderbook:
  assumes "\<not> (is_indian_stock symbol \<and>
       (\<exists>td req_id rest t. td_app w = Some td \<and>
          start_live_data td [get_clean_symbol symbol] = Inr (req_id # rest) \<and>
          live_data td (if live_data td 0 req_id = None then 200 else 0) req_id = Some t))"
  shows "response_field (snd (get_quote w symbol)) ''orderbook'' = None"
proof (cases "is_indian_stock symbol")
  case False
  then show ?thesis by (simp add: get_quote_def response_field_def)
next
  case True
  show ?thesis
  proof (cases "td_app w")
    case None
    with True show ?thesis
      by (simp add: get_quote_def response_field_def status_response_def)
  next
    case (Some td)
    show ?thesis
    proof (cases "start_live_data td [get_clean_symbol symbol]")
      case (Inl e)
      with True Some show ?thesis
        by (simp add: get_quote_def quote_try_def response_field_def)
    next
      case (Inr req_ids)
      show ?thesis
      proof (cases req_ids)
        case Nil
        with True Some Inr show ?thesis
          by (simp add: get_quote_def quote_try_def response_field_def status_response_def)
      next
        case (Cons req_id rest)
        with assms True Some Inr
        have "live_data td (if live_data td 0 req_id = None then 200 else 0) req_id = None"
          by auto
        with True Some Inr Cons show ?thesis
          by (auto simp: get_quote_def quote_try_def Let_def response_field_def status_response_def
                   split: if_splits)
      qed
    qed
  qed
qed

text \<open>
  C2, as stated: every response of \<open>get_quote\<close> has an order book. The response of the
  mock path has none: its keys are symbol, price, change, change_percent, currency and
  source.
\<close>

theorem quote_mock_has_no_orderbook:
  "get_quote sample_env ''AAPL'' =
     ([], Inr (PDict [(''symbol'', PStr ''AAPL''), (''price'', PFloat 1550), (''change'', PFloat 0),
                      (''change_percent'', PFloat 0), (''currency'', PStr ''USD''),
                      (''source'', PStr ''Mock (US)'')])) \<and>
   response_field (snd (get_quote sample_env ''AAPL'')) ''orderbook'' = None"
  by (simp add: get_quote_def is_indian_stock_def endswith_def INDEX_MAP_def suffix_def
        sample_env_def uniform_def response_field_def)

text \<open>
  C2, amended: when the symbol is routed to the vendor and a tick is in the cache at the
  second look, the response has an order book with exactly 5 bid levels and exactly 5
  ask levels, level \<open>n\<close> being the price \<open>bid\<close>n\<open>_rate\<close> and the quantity
  \<open>bid\<close>n\<open>_qty\<close> of the tick (\<open>ask\<close> likewise), each 0 when the tick lacks the
  attribute. In every other case (the mock path and the degraded responses) the
  response has no order book.
\<close>

theorem quote_orderbook_five_levels:
  "(\<forall>td req_id rest t.
      is_indian_stock symbol \<and> td_app w = Some td \<and>
      start_live_data td [get_clean_symbol symbol] = Inr (req_id # rest) \<and>
      live_data td (if live_data td 0 req_id = None then 200 else 0) req_id = Some t \<longrightarrow>
      (\<exists>bids asks.
        response_field (snd (get_quote w symbol)) ''orderbook''
          = Some (PDict [(''bids'', PList bids), (''asks'', PList asks)]) \<and>
        length bids = 5 \<and> length asks = 5 \<and>
        bids = map (\<lambda>n. PDict [(''price'', case t (''bid'' @ decimal n @ ''_rate'') of Some v \<Rightarrow> v | None \<Rightarrow> PInt 0),
                                (''qty'', case t (''bid'' @ decimal n @ ''_qty'') of Some v \<Rightarrow> v | None \<Rightarrow> PInt 0)])
                   [1..<6] \<and>
        asks = map (\<lambda>n. PDict [(''price'', case t (''ask'' @ decimal n @ ''_rate'') of Some v \<Rightarrow> v | None \<Rightarrow> PInt 0),
                                (''qty'', case t (''ask'' @ decimal n @ ''_qty'') of Some v \<Rightarrow> v | None \<Rightarrow> PInt 0)])
                   [1..<6])) \<and>
   (\<not> (is_indian_stock symbol \<and>
       (\<exists>td req_id rest t. td_app w = Some td \<and>
          start_live_data td [get_clean_symbol symbol] = Inr (req_id # rest) \<and>
          live_data td (if live_data td 0 req_id = None then 200 else 0) req_id = Some t)) \<longrightarrow>
      response_field (snd (get_quote w symbol)) ''orderbook'' = None)"
proof (intro conjI allI impI)
  fix td req_id rest t
  assume a: "is_indian_stock symbol \<and> td_app w = Some td \<and>
      start_live_data td [get_clean_symbol symbol] = Inr (req_id # rest) \<and>
      live_data td (if live_data td 0 req_id = None then 200 else 0) req_id = Some t"
  then have "snd (get_quote w symbol) = Inr (tick_response symbol t)"
    by (intro quote_tick_response) blast+
  then have "response_field (snd (get_quote w symbol)) ''orderbook'' = Some (orderbook t)"
    by (simp add: response_field_def tick_response_def)
  then show "\<exists>bids asks.
        response_field (snd (get_quote w symbol)) ''orderbook''
          = Some (PDict [(''bids'', PList bids), (''asks'', PList asks)]) \<and>
        length bids = 5 \<and> length asks = 5 \<and>
        bids = map (\<lambda>n. PDict [(''price'', case t (''bid'' @ decimal n @ ''_rate'') of Some v \<Rightarrow> v | None \<Rightarrow> PInt 0),
                                (''qty'', case t (''bid'' @ decimal n @ ''_qty'') of Some v \<Rightarrow> v | None \<Rightarrow> PInt 0)])
                   [1..<6] \<and>
        asks = map (\<lambda>n. PDict [(''price'', case t (''ask'' @ decimal n @ ''_rate'') of Some v \<Rightarrow> v | None \<Rightarrow> PInt 0),
                                (''qty'', case t (''ask'' @ decimal n @ ''_qty'') of Some v \<Rightarrow> v | None \<Rightarrow> PInt 0)])
                   [1..<6]"
    by (simp add: orderbook_levels getattr_def)
next
  assume "\<not> (is_indian_stock symbol \<and>
       (\<exists>td req_id rest t. td_app w = Some td \<and>
          start_live_data td [get_clean_symbol symbol] = Inr (req_id # rest) \<and>
          live_data td (if live_data td 0 req_id = None then 200 else 0) req_id = Some t))"
  then show "response_field (snd (get_quote w symbol)) ''orderbook'' = None"
    by (rule quote_no_orderbook)
qed

theorem quote_orderbook_five_levels_witness:
  "is_indian_stock ''RELIANCE.NS'' \<and>
   response_field (snd (get_quote (sample_env\<lparr>td_app := Some sample_td\<rparr>) ''RELIANCE.NS'')) ''orderbook'' =
     Some (PDict
       [(''bids'', PList [PDict [(''price'', PFloat 2500), (''qty'', PInt 10)],
                          PDict [(''price'', PInt 0), (''qty'', PInt 0)],
                          PDict [(''price'', PInt 0), (''qty'', PInt 0)],
                          PDict [(''price'', PInt 0), (''qty'', PInt 0)],
                          PDict [(''price'', PInt 0), (''qty'', PInt 0)]]),
        (''asks'', PList [PDict [(''price'', PInt 0), (''qty'', PInt 0)],
                          PDict [(''price'', PInt 0), (''qty'', PInt 0)],
                          PDict [(''price'', PInt 0), (''qty'', PInt 0)],
                          PDict [(''price'', PInt 0), (''qty'', PInt 0)],
                          PDict [(''price'', PInt 0), (''qty'', PInt 0)]])]) \<and>
   response_field (snd (get_quote sample_env ''AAPL'')) ''orderbook'' = None \<and>
   response_field (snd (get_quote sample_env ''RELIANCE.NS'')) ''orderbook'' = None"
proof -
  have h1: "is_indian_stock ''RELIANCE.NS''" by (rule is_indian_RELIANCE)
  have h2: "td_app (sample_env\<lparr>td_app := Some sample_td\<rparr>) = Some sample_td" by simp
  have h3: "start_live_data sample_td [get_clean_symbol ''RELIANCE.NS''] = Inr (7 # [])"
    by (simp add: sample_td_def)
  have h4: "live_data sample_td (if live_data sample_td 0 7 = None then 200 else 0) 7 = Some sample_tick"
    by (simp add: sample_td_def)
  from quote_orderbook_five_levels [of "''RELIANCE.NS''" "sample_env\<lparr>td_app := Some sample_td\<rparr>"]
    h1 h2 h3 h4
  have "\<exists>bids asks.
      response_field (snd (get_quote (sample_env\<lparr>td_app := Some sample_td\<rparr>) ''RELIANCE.NS'')) ''orderbook''
        = Some (PDict [(''bids'', PList bids), (''asks'', PList asks)]) \<and>
      length bids = 5 \<and> length asks = 5 \<and>
      bids = map (\<lambda>n. PDict [(''price'', case sample_tick (''bid'' @ decimal n @ ''_rate'') of Some v \<Rightarrow> v | None \<Rightarrow> PInt 0),
                              (''qty'', case sample_tick (''bid'' @ decimal n @ ''_qty'') of Some v \<Rightarrow> v | None \<Rightarrow> PInt 0)])
                 [1..<6] \<and>
      asks = map (\<lambda>n. PDict [(''price'', case sample_tick (''ask'' @ decimal n @ ''_rate'') of Some v \<Rightarrow> v | None \<Rightarrow> PInt 0),
                              (''qty'', case sample_tick (''ask'' @ decimal n @ ''_qty'') of Some v \<Rightarrow> v | None \<Rightarrow> PInt 0)])
                 [1..<6]"
    by blast
  then have 1: "response_field (snd (get_quote (sample_env\<lparr>td_app := Some sample_td\<rparr>) ''RELIANCE.NS'')) ''orderbook'' =
     Some (PDict
       [(''bids'', PList [PDict [(''price'', PFloat 2500), (''qty'', PInt 10)],
                          PDict [(''price'', PInt 0), (''qty'', PInt 0)],
                          PDict [(''price'', PInt 0), (''qty'', PInt 0)],
                          PDict [(''price'', PInt 0), (''qty'', PInt 0)],
                          PDict [(''price'', PInt 0), (''qty'', PInt 0)]]),
        (''asks'', PList [PDict [(''price'', PInt 0), (''qty'', PInt 0)],
                          PDict [(''price'', PInt 0), (''qty'', PInt 0)],
                          PDict [(''price'', PInt 0), (''qty'', PInt 0)],
                          PDict [(''price'', PInt 0), (''qty'', PInt 0)],
                          PDict [(''price'', PInt 0), (''qty'', PInt 0)]])])"
    by (auto simp: upt_1_6 decimal_digits sample_tick_def)
  from quote_orderbook_five_levels [of "''AAPL''" sample_env] not_indian_AAPL
  have 2: "response_field (snd (get_quote sample_env ''AAPL'')) ''orderbook'' = None"
    by blast
  have n: "\<not> (is_indian_stock ''RELIANCE.NS'' \<and>
       (\<exists>td req_id rest t. td_app sample_env = Some td \<and>
          start_live_data td [get_clean_symbol ''RELIANCE.NS''] = Inr (req_id # rest) \<and>
          live_data td (if live_data td 0 req_id = None then 200 else 0) req_id = Some t))"
    by (simp add: sample_env_def)
  from quote_orderbook_five_levels [of "''RELIANCE.NS''" sample_env] n
  have 3: "response_field (snd (get_quote sample_env ''RELIANCE.NS'')) ''orderbook'' = None"
    by blast
  from h1 1 2 3 show ?thesis by blast
qed

text \<open>
  C10. When the symbol is routed to the vendor and a tick is in the cache at the second
  look, the response has currency \<open>INR\<close>, source \<open>TrueData\<close>, and under \<open>symbol\<close> the
  symbol as the caller wrote it, not the canonical one.
\<close>

theorem quote_vendor_currency_source_symbol:
  assumes "is_indian_stock symbol" and "td_app w = Some td"
    and "start_live_data td [get_clean_symbol symbol] = Inr (req_id # rest)"
    and "live_data td (if live_data td 0 req_id = None then 200 else 0) req_id = Some t"
  shows "response_field (snd (get_quote w symbol)) ''currency'' = Some (PStr ''INR'') \<and>
         response_field (snd (get_quote w symbol)) ''source'' = Some (PStr ''TrueData'') \<and>
         response_field (snd (get_quote w symbol)) ''symbol'' = Some (PStr symbol)"
  by (simp add: quote_tick_response [OF assms] response_field_def tick_response_def)

theorem quote_vendor_currency_source_symbol_witness:
  "is_indian_stock ''RELIANCE.NS'' \<and> get_clean_symbol ''RELIANCE.NS'' \<noteq> ''RELIANCE.NS'' \<and>
   response_field (snd (get_quote (sample_env\<lparr>td_app := Some sample_td\<rparr>) ''RELIANCE.NS'')) ''currency''
     = Some (PStr ''INR'') \<and>
   response_field (snd (get_quote (sample_env\<lparr>td_app := Some sample_td\<rparr>) ''RELIANCE.NS'')) ''source''
     = Some (PStr ''TrueData'') \<and>
   response_field (snd (get_quote (sample_env\<lparr>td_app := Some sample_td\<rparr>) ''RELIANCE.NS'')) ''symbol''
     = Some (PStr ''RELIANCE.NS'')"
proof -
  have h1: "is_indian_stock ''RELIANCE.NS''" by (rule is_indian_RELIANCE)
  have h2: "td_app (sample_env\<lparr>td_app := Some sample_td\<rparr>) = Some sample_td" by simp
  have h3: "start_live_data sample_td [get_clean_symbol ''RELIANCE.NS''] = Inr (7 # [])"
    by (simp add: sample_td_def)
  have h4: "live_data sample_td (if live_data sample_td 0 7 = None then 200 else 0) 7 = Some sample_tick"
    by (simp add: sample_td_def)
  have c: "get_clean_symbol ''RELIANCE.NS'' \<noteq> ''RELIANCE.NS''" by (simp add: clean_RELIANCE)
  from h1 c quote_vendor_currency_source_symbol [OF h1 h2 h3 h4] show ?thesis by blast
qed

section \<open>History\<close>

lemma candle_of_row_list:
  "5 \<le> length xs \<Longrightarrow> candle_of_row (PList xs) (length xs) = Inr (row_candle xs)"
  by (auto simp: candle_of_row_def bind_exn_def row_candle_def)

lemma chart_rows_lists:
  "chart_rows (map PList rows) = Inr (map row_candle (filter (\<lambda>xs. 5 \<le> length xs) rows))"
  by (induction rows) (simp_all add: bind_exn_def candle_of_row_list)

lemma length_mock_candles: "length (mock_candles nw rnd is price) = length is"
  by (induction "is" arbitrary: price) (simp_all add: Let_def)

lemma length_generate_mock_history: "length (generate_mock_history b nw rnd) = 30"
  by (simp add: generate_mock_history_def length_mock_candles)

lemma history_never_raises: "\<exists>r. snd (get_history w symbol period) = Inr r"
  by (simp add: get_history_def split: prod.splits sum.splits)

lemma history_events:
  "is_indian_stock symbol \<Longrightarrow>
   fst (get_history w symbol period) = [HttpGet TD_HISTORY_URL (history_params w symbol period) 5]"
  by (simp add: get_history_def history_try_def Let_def split: prod.splits sum.splits)

lemma history_mock_path:
  "\<not> is_indian_stock symbol \<Longrightarrow>
   get_history w symbol period = ([], Inr (PList (generate_mock_history 150 (now w) (random w))))"
  by (simp add: get_history_def)

lemma sample_dates:
  "strftime ''%y%m%d'' \<lparr>year = 2024, month = 3, day = 5\<rparr> = ''240305''"
  "strftime ''%y%m%d'' (minus_days \<lparr>year = 2024, month = 3, day = 5\<rparr> 5) = ''240229''"
  "strftime ''%y%m%d'' (minus_days \<lparr>year = 2024, month = 3, day = 5\<rparr> 30) = ''240204''"
  by code_simp+

text \<open>
  C4. For a symbol routed to the vendor, \<open>get_history\<close> always returns a list and never
  raises. When the request succeeds with status 200 and the payload is an object whose
  \<open>Records\<close> is a list of rows, the result has one candle for each row of at least 5
  fields, in order (date, open, high, low, close, and the volume or 0), and nothing for
  the shorter rows. When the request raises (an HTTP failure or a timeout), the status
  is not 200, decoding the payload raises, or anything else in the \<^verbatim>\<open>try\<close> raises,
  the result is the 30-candle series of the mock generator, the same one a symbol of the
  mock path gets in the same environment.
\<close>

theorem history_vendor_rows_or_mock:
  assumes "is_indian_stock symbol"
  shows "(\<exists>r. snd (get_history w symbol period) = Inr r) \<and>
    (\<forall>response kvs rows.
       requests_get w TD_HISTORY_URL (history_params w symbol period) 5 = Inr response \<and>
       status_code response = 200 \<and> json response = Inr (PDict kvs) \<and>
       map_of kvs ''Records'' = Some (PList (map PList rows)) \<longrightarrow>
       snd (get_history w symbol period) =
         Inr (PList (map row_candle (filter (\<lambda>xs. 5 \<le> length xs) rows)))) \<and>
    ((\<exists>e. requests_get w TD_HISTORY_URL (history_params w symbol period) 5 = Inl e) \<or>
     (\<exists>response. requests_get w TD_HISTORY_URL (history_params w symbol period) 5 = Inr response \<and>
        (status_code response \<noteq> 200 \<or> (\<exists>e. json response = Inl e))) \<or>
     (\<exists>e. snd (history_try w symbol period) = Inl e) \<longrightarrow>
       snd (get_history w symbol period) = Inr (PList (generate_mock_history 150 (now w) (random w))) \<and>
       length (generate_mock_history 150 (now w) (random w)) = 30 \<and>
       (\<forall>other. \<not> is_indian_stock other \<longrightarrow>
          snd (get_history w symbol period) = snd (get_history w other period)))"
proof (intro conjI allI impI)
  show "\<exists>r. snd (get_history w symbol period) = Inr r" by (rule history_never_raises)
next
  fix response kvs rows
  assume "requests_get w TD_HISTORY_URL (history_params w symbol period) 5 = Inr response \<and>
       status_code response = 200 \<and> json response = Inr (PDict kvs) \<and>
       map_of kvs ''Records'' = Some (PList (map PList rows))"
  with assms show "snd (get_history w symbol period) =
         Inr (PList (map row_candle (filter (\<lambda>xs. 5 \<le> length xs) rows)))"
    by (simp add: get_history_def history_try_def Let_def bind_exn_def dict_get_def chart_rows_lists)
next
  assume f: "(\<exists>e. requests_get w TD_HISTORY_URL (history_params w symbol period) 5 = Inl e) \<or>
     (\<exists>response. requests_get w TD_HISTORY_URL (history_params w symbol period) 5 = Inr response \<and>
        (status_code response \<noteq> 200 \<or> (\<exists>e. json response = Inl e))) \<or>
     (\<exists>e. snd (history_try w symbol period) = Inl e)"
  with assms show m: "snd (get_history w symbol period) = Inr (PList (generate_mock_history 150 (now w) (random w)))"
    by (auto simp: get_history_def history_try_def Let_def bind_exn_def split: sum.splits)
  show "length (generate_mock_history 150 (now w) (random w)) = 30"
    by (rule length_generate_mock_history)
  fix other assume "\<not> is_indian_stock other"
  then show "snd (get_history w symbol period) = snd (get_history w other period)"
    by (simp add: m history_mock_path)
qed

theorem history_vendor_rows_or_mock_witness:
  "is_indian_stock ''RELIANCE.NS'' \<and>
   snd (get_history (sample_env\<lparr>requests_get := http_ok sample_history_payload\<rparr>) ''RELIANCE.NS'' ''1mo'') =
     Inr (PList
       [PDict [(''date'', PStr ''2024-03-01''), (''open'', PFloat 2900), (''high'', PFloat 2950),
               (''low'', PFloat 2880), (''close'', PFloat 2941.5), (''volume'', PInt 1200)],
        PDict [(''date'', PStr ''2024-03-05''), (''open'', PFloat 2940), (''high'', PFloat 2990),
               (''low'', PFloat 2935), (''close'', PFloat 2980), (''volume'', PInt 0)]]) \<and>
   snd (get_history sample_env ''RELIANCE.NS'' ''1mo'') = snd (get_history sample_env ''AAPL'' ''1mo'') \<and>
   snd (get_history sample_env ''RELIANCE.NS'' ''1mo'') =
     Inr (PList (generate_mock_history 150 (now sample_env) (random sample_env))) \<and>
   length (generate_mock_history 150 (now sample_env) (random sample_env)) = 30"
proof -
  let ?w = "sample_env\<lparr>requests_get := http_ok sample_history_payload\<rparr>"
  let ?resp = "\<lparr>status_code = 200, json = Inr sample_history_payload\<rparr>"
  have h: "is_indian_stock ''RELIANCE.NS''" by (rule is_indian_RELIANCE)
  have ok: "requests_get ?w TD_HISTORY_URL (history_params ?w ''RELIANCE.NS'' ''1mo'') 5 = Inr ?resp \<and>
       status_code ?resp = 200 \<and>
       json ?resp = Inr (PDict [(''status'', PStr ''Success''), (''Records'', PList (map PList sample_rows))]) \<and>
       map_of [(''status'', PStr ''Success''), (''Records'', PList (map PList sample_rows))] ''Records''
         = Some (PList (map PList sample_rows))"
    by (simp add: http_ok_def sample_history_payload_def)
  from history_vendor_rows_or_mock [OF h, of ?w "''1mo''"] ok
  have "snd (get_history ?w ''RELIANCE.NS'' ''1mo'') =
         Inr (PList (map row_candle (filter (\<lambda>xs. 5 \<le> length xs) sample_rows)))"
    by blast
  then have 1: "snd (get_history ?w ''RELIANCE.NS'' ''1mo'') =
     Inr (PList
       [PDict [(''date'', PStr ''2024-03-01''), (''open'', PFloat 2900), (''high'', PFloat 2950),
               (''low'', PFloat 2880), (''close'', PFloat 2941.5), (''volume'', PInt 1200)],
        PDict [(''date'', PStr ''2024-03-05''), (''open'', PFloat 2940), (''high'', PFloat 2990),
               (''low'', PFloat 2935), (''close'', PFloat 2980), (''volume'', PInt 0)]])"
    by (simp add: sample_rows_def row_candle_def)
  have fail: "\<exists>e. requests_get sample_env TD_HISTORY_URL (history_params sample_env ''RELIANCE.NS'' ''1mo'') 5 = Inl e"
    by (simp add: sample_env_def)
  from history_vendor_rows_or_mock [OF h, of sample_env "''1mo''"] fail not_indian_AAPL
  have 2: "snd (get_history sample_env ''RELIANCE.NS'' ''1mo'') =
             Inr (PList (generate_mock_history 150 (now sample_env) (random sample_env))) \<and>
           length (generate_mock_history 150 (now sample_env) (random sample_env)) = 30 \<and>
           snd (get_history sample_env ''RELIANCE.NS'' ''1mo'') = snd (get_history sample_env ''AAPL'' ''1mo'')"
    by blast
  from h 1 2 show ?thesis by blast
qed

text \<open>
  C5. For a symbol routed to the vendor, \<open>get_history\<close> makes one request, whose range
  ends today; period \<open>1d\<close> starts it 5 days back at resolution \<open>15min\<close>, period \<open>1y\<close>
  365 days back at resolution \<open>EOD\<close>, and every other period 30 days back at resolution
  \<open>EOD\<close>, with the same outcome as period \<open>1mo\<close>.
\<close>

theorem history_period_mapping:
  assumes "is_indian_stock symbol"
  shows "fst (get_history w symbol period) = [HttpGet TD_HISTORY_URL (history_params w symbol period) 5] \<and>
    map_of (history_params w symbol period) ''to'' = Some (PStr (strftime ''%y%m%d'' (now w))) \<and>
    (period = ''1d'' \<longrightarrow>
       map_of (history_params w symbol period) ''from''
         = Some (PStr (strftime ''%y%m%d'' (minus_days (now w) 5))) \<and>
       map_of (history_params w symbol period) ''resolution'' = Some (PStr ''15min'')) \<and>
    (period = ''1y'' \<longrightarrow>
       map_of (history_params w symbol period) ''from''
         = Some (PStr (strftime ''%y%m%d'' (minus_days (now w) 365))) \<and>
       map_of (history_params w symbol period) ''resolution'' = Some (PStr ''EOD'')) \<and>
    (period \<noteq> ''1d'' \<and> period \<noteq> ''1y'' \<longrightarrow>
       map_of (history_params w symbol period) ''from''
         = Some (PStr (strftime ''%y%m%d'' (minus_days (now w) 30))) \<and>
       map_of (history_params w symbol period) ''resolution'' = Some (PStr ''EOD'') \<and>
       get_history w symbol period = get_history w symbol ''1mo'')"
proof -
  have "period \<noteq> ''1d'' \<and> period \<noteq> ''1y'' \<longrightarrow> history_params w symbol period = history_params w symbol ''1mo''"
    by (simp add: history_params_def history_range_def)
  then have "period \<noteq> ''1d'' \<and> period \<noteq> ''1y'' \<longrightarrow> get_history w symbol period = get_history w symbol ''1mo''"
    by (simp add: get_history_def history_try_def)
  then show ?thesis
    using assms by (simp add: history_events history_params_def history_range_def Let_def)
qed

theorem history_period_mapping_witness:
  "is_indian_stock ''RELIANCE.NS'' \<and>
   fst (get_history sample_env ''RELIANCE.NS'' ''1d'') =
     [HttpGet ''https://history.truedata.in/gethistory''
        [(''symbol'', PStr ''RELIANCE''), (''resolution'', PStr ''15min''),
         (''from'', PStr ''240229''), (''to'', PStr ''240305''), (''response'', PStr ''json''),
         (''user'', PNone), (''pass'', PNone)] 5] \<and>
   map_of (history_params sample_env ''RELIANCE.NS'' ''1y'') ''from''
     = Some (PStr (strftime ''%y%m%d'' (minus_days \<lparr>year = 2024, month = 3, day = 5\<rparr> 365))) \<and>
   map_of (history_params sample_env ''RELIANCE.NS'' ''1y'') ''resolution'' = Some (PStr ''EOD'') \<and>
   map_of (history_params sample_env ''RELIANCE.NS'' ''5d'') ''from'' = Some (PStr ''240204'') \<and>
   map_of (history_params sample_env ''RELIANCE.NS'' ''5d'') ''resolution'' = Some (PStr ''EOD'') \<and>
   get_history sample_env ''RELIANCE.NS'' ''5d'' = get_history sample_env ''RELIANCE.NS'' ''1mo''"
proof -
  have h: "is_indian_stock ''RELIANCE.NS''" by (rule is_indian_RELIANCE)
  have n: "now sample_env = \<lparr>year = 2024, month = 3, day = 5\<rparr>" by (simp add: sample_env_def)
  have p: "history_params sample_env ''RELIANCE.NS'' ''1d'' =
        [(''symbol'', PStr ''RELIANCE''), (''resolution'', PStr ''15min''),
         (''from'', PStr ''240229''), (''to'', PStr ''240305''), (''response'', PStr ''json''),
         (''user'', PNone), (''pass'', PNone)]"
    by (simp add: history_params_def history_range_def Let_def n sample_dates clean_RELIANCE opt_str_def)
       (simp add: sample_env_def)
  from history_period_mapping [OF h, of sample_env "''1d''"]
  have 1: "fst (get_history sample_env ''RELIANCE.NS'' ''1d'') =
     [HttpGet ''https://history.truedata.in/gethistory''
        [(''symbol'', PStr ''RELIANCE''), (''resolution'', PStr ''15min''),
         (''from'', PStr ''240229''), (''to'', PStr ''240305''), (''response'', PStr ''json''),
         (''user'', PNone), (''pass'', PNone)] 5]"
    by (simp add: p TD_HISTORY_URL_def)
  from history_period_mapping [OF h, of sample_env "''1y''"]
  have 2: "map_of (history_params sample_env ''RELIANCE.NS'' ''1y'') ''from''
     = Some (PStr (strftime ''%y%m%d'' (minus_days \<lparr>year = 2024, month = 3, day = 5\<rparr> 365))) \<and>
   map_of (history_params sample_env ''RELIANCE.NS'' ''1y'') ''resolution'' = Some (PStr ''EOD'')"
    by (simp add: n sample_dates)
  have ne: "''5d'' \<noteq> ''1d'' \<and> ''5d'' \<noteq> ''1y''" by simp
  from history_period_mapping [OF h, of sample_env "''5d''"] ne
  have 3: "map_of (history_params sample_env ''RELIANCE.NS'' ''5d'') ''from'' = Some (PStr ''240204'') \<and>
   map_of (history_params sample_env ''RELIANCE.NS'' ''5d'') ''resolution'' = Some (PStr ''EOD'') \<and>
   get_history sample_env ''RELIANCE.NS'' ''5d'' = get_history sample_env ''RELIANCE.NS'' ''1mo''"
    by (simp add: n sample_dates)
  from h 1 2 3 show ?thesis by blast
qed

section \<open>Fundamentals\<close>

lemma fundamentals_never_raises: "\<exists>r. snd (get_fundamentals w symbol) = Inr r"
  by (simp add: get_fundamentals_def split: prod.splits sum.splits)

lemma fundamentals_mock_path:
  "\<not> is_indian_stock symbol \<Longrightarrow> get_fundamentals w symbol = ([], Inr (empty_data symbol))"
  by (simp add: get_fundamentals_def)

lemma fundamentals_events:
  "is_indian_stock symbol \<Longrightarrow>
   fst (get_fundamentals w symbol) =
     [HttpGet (TD_FUNDAMENTAL_URL @ ''/company_info'') (fundamentals_params w symbol) 3]"
  by (simp add: get_fundamentals_def fundamentals_try_def Let_def split: prod.splits sum.splits)

lemma fundamentals_fallback:
  assumes "(\<exists>e. requests_get w (TD_FUNDAMENTAL_URL @ ''/company_info'') (fundamentals_params w symbol) 3 = Inl e) \<or>
     (\<exists>response. requests_get w (TD_FUNDAMENTAL_URL @ ''/company_info'') (fundamentals_params w symbol) 3 = Inr response \<and>
        (status_code response \<noteq> 200 \<or> (\<exists>e. json response = Inl e))) \<or>
     (\<exists>e. snd (fundamentals_try w symbol) = Inl e)"
  shows "snd (get_fundamentals w symbol) = Inr (empty_data symbol)"
  using assms
  by (auto simp: get_fundamentals_def fundamentals_try_def Let_def bind_exn_def split: sum.splits)

lemma overlay_dict:
  "overlay (PDict kvs) =
     Inr (PDict
       [(''market_cap'', dict_get kvs ''market_cap'' (PInt 0)),
        (''pe_ratio'', dict_get kvs ''pe'' (PInt 0)),
        (''peg_ratio'', dict_get kvs ''peg'' (PInt 0)),
        (''book_value'', dict_get kvs ''book_value'' (PInt 0)),
        (''dividend_yield'', dict_get kvs ''dividend_yield'' (PInt 0)),
        (''eps'', dict_get kvs ''eps'' (PInt 0)),
        (''profit_margin'', dict_get kvs ''profit_margin'' (PInt 0)),
        (''roe'', dict_get kvs ''roe'' (PInt 0)),
        (''debt_to_equity'', dict_get kvs ''debt_to_equity'' (PInt 0)),
        (''shareholding'', dict_get kvs ''shareholding'' (PDict [])),
        (''forecast'',
           PDict [(''recommendation'', dict_get kvs ''recommendation'' (PStr ''N/A'')),
                  (''targetMean'', dict_get kvs ''target_price'' (PInt 0)),
                  (''targetLow'', dict_get kvs ''target_low'' (PInt 0)),
                  (''targetHigh'', dict_get kvs ''target_high'' (PInt 0))]),
        (''currency'', PStr ''INR'')])"
  by (simp add: overlay_def bind_exn_def)

lemma fundamentals_success:
  assumes "is_indian_stock symbol"
    and "requests_get w (TD_FUNDAMENTAL_URL @ ''/company_info'') (fundamentals_params w symbol) 3 = Inr response"
    and "status_code response = 200" and "json response = Inr (PDict kvs)"
  shows "snd (get_fundamentals w symbol) = overlay (PDict kvs)"
  using assms
  by (simp add: get_fundamentals_def fundamentals_try_def Let_def bind_exn_def overlay_dict)

text \<open>
  C6. When the symbol is on the mock path, or the vendor call fails (the request raises,
  as on a timeout; the status is not 200; decoding the payload or reading it raises),
  \<open>get_fundamentals\<close> returns the default record: every numeric field 0, the three
  shareholding parts 0, recommendation \<open>WAITING\<close> with the three targets 0, and currency
  \<open>INR\<close> for a symbol routed to the vendor, \<open>USD\<close> otherwise. Nothing of the vendor's
  response is in it.
\<close>

theorem fundamentals_failure_default:
  assumes "\<not> is_indian_stock symbol \<or>
     (\<exists>e. requests_get w (TD_FUNDAMENTAL_URL @ ''/company_info'') (fundamentals_params w symbol) 3 = Inl e) \<or>
     (\<exists>response. requests_get w (TD_FUNDAMENTAL_URL @ ''/company_info'') (fundamentals_params w symbol) 3 = Inr response \<and>
        (status_code response \<noteq> 200 \<or> (\<exists>e. json response = Inl e))) \<or>
     (\<exists>e. snd (fundamentals_try w symbol) = Inl e)"
  shows "snd (get_fundamentals w symbol) =
     Inr (PDict
       [(''market_cap'', PInt 0),
        (''pe_ratio'', PInt 0),
        (''peg_ratio'', PInt 0),
        (''book_value'', PInt 0),
        (''dividend_yield'', PInt 0),
        (''eps'', PInt 0),
        (''profit_margin'', PInt 0),
        (''roe'', PInt 0),
        (''debt_to_equity'', PInt 0),
        (''shareholding'',
           PDict [(''promoters'', PInt 0), (''institutions'', PInt 0), (''public'', PInt 0)]),
        (''forecast'',
           PDict [(''recommendation'', PStr ''WAITING''),
                  (''targetMean'', PInt 0),
                  (''targetLow'', PInt 0),
                  (''targetHigh'', PInt 0)]),
        (''currency'', PStr (if is_indian_stock symbol then ''INR'' else ''USD''))])"
proof (cases "is_indian_stock symbol")
  case False
  then show ?thesis by (simp add: fundamentals_mock_path empty_data_def)
next
  case True
  with assms have "snd (get_fundamentals w symbol) = Inr (empty_data symbol)"
    by (intro fundamentals_fallback) blast
  then show ?thesis by (simp add: empty_data_def)
qed

theorem fundamentals_failure_default_witness:
  "snd (get_fundamentals sample_env ''RELIANCE.NS'') =
     Inr (PDict
       [(''market_cap'', PInt 0), (''pe_ratio'', PInt 0), (''peg_ratio'', PInt 0),
        (''book_value'', PInt 0), (''dividend_yield'', PInt 0), (''eps'', PInt 0),
        (''profit_margin'', PInt 0), (''roe'', PInt 0), (''debt_to_equity'', PInt 0),
        (''shareholding'',
           PDict [(''promoters'', PInt 0), (''institutions'', PInt 0), (''public'', PInt 0)]),
        (''forecast'',
           PDict [(''recommendation'', PStr ''WAITING''), (''targetMean'', PInt 0),
                  (''targetLow'', PInt 0), (''targetHigh'', PInt 0)]),
        (''currency'', PStr ''INR'')]) \<and>
   snd (get_fundamentals sample_env ''AAPL'') =
     Inr (PDict
       [(''market_cap'', PInt 0), (''pe_ratio'', PInt 0), (''peg_ratio'', PInt 0),
        (''book_value'', PInt 0), (''dividend_yield'', PInt 0), (''eps'', PInt 0),
        (''profit_margin'', PInt 0), (''roe'', PInt 0), (''debt_to_equity'', PInt 0),
        (''shareholding'',
           PDict [(''promoters'', PInt 0), (''institutions'', PInt 0), (''public'', PInt 0)]),
        (''forecast'',
           PDict [(''recommendation'', PStr ''WAITING''), (''targetMean'', PInt 0),
                  (''targetLow'', PInt 0), (''targetHigh'', PInt 0)]),
        (''currency'', PStr ''USD'')])"
proof -
  have f: "\<exists>e. requests_get sample_env (TD_FUNDAMENTAL_URL @ ''/company_info'')
                  (fundamentals_params sample_env ''RELIANCE.NS'') 3 = Inl e"
    by (simp add: sample_env_def)
  from fundamentals_failure_default [of "''RELIANCE.NS''" sample_env] f is_indian_RELIANCE
  have 1: "snd (get_fundamentals sample_env ''RELIANCE.NS'') =
     Inr (PDict
       [(''market_cap'', PInt 0), (''pe_ratio'', PInt 0), (''peg_ratio'', PInt 0),
        (''book_value'', PInt 0), (''dividend_yield'', PInt 0), (''eps'', PInt 0),
        (''profit_margin'', PInt 0), (''roe'', PInt 0), (''debt_to_equity'', PInt 0),
        (''shareholding'',
           PDict [(''promoters'', PInt 0), (''institutions'', PInt 0), (''public'', PInt 0)]),
        (''forecast'',
           PDict [(''recommendation'', PStr ''WAITING''), (''targetMean'', PInt 0),
                  (''targetLow'', PInt 0), (''targetHigh'', PInt 0)]),
        (''currency'', PStr ''INR'')])"
    by simp
  from fundamentals_failure_default [of "''AAPL''" sample_env] not_indian_AAPL
  have 2: "snd (get_fundamentals sample_env ''AAPL'') =
     Inr (PDict
       [(''market_cap'', PInt 0), (''pe_ratio'', PInt 0), (''peg_ratio'', PInt 0),
        (''book_value'', PInt 0), (''dividend_yield'', PInt 0), (''eps'', PInt 0),
        (''profit_margin'', PInt 0), (''roe'', PInt 0), (''debt_to_equity'', PInt 0),
        (''shareholding'',
           PDict [(''promoters'', PInt 0), (''institutions'', PInt 0), (''public'', PInt 0)]),
        (''forecast'',
           PDict [(''recommendation'', PStr ''WAITING''), (''targetMean'', PInt 0),
                  (''targetLow'', PInt 0), (''targetHigh'', PInt 0)]),
        (''currency'', PStr ''USD'')])"
    by simp
  from 1 2 show ?thesis by blast
qed

text \<open>
  C7, as stated: the result always has the shareholding breakdown with promoters,
  institutions and public. On a successful call the handler copies the vendor's
  \<open>shareholding\<close> value as it is: a response with promoters only gives a result with
  promoters only.
\<close>

theorem fundamentals_partial_shareholding:
  "response_field
     (snd (get_fundamentals (sample_env\<lparr>requests_get := http_ok sample_fundamentals_payload\<rparr>) ''RELIANCE.NS''))
     ''shareholding''
   = Some (PDict [(''promoters'', PFloat 50.3)])"
proof -
  let ?w = "sample_env\<lparr>requests_get := http_ok sample_fundamentals_payload\<rparr>"
  let ?kvs = "[(''pe'', PFloat 24.5), (''shareholding'', PDict [(''promoters'', PFloat 50.3)])]"
  have h2: "requests_get ?w (TD_FUNDAMENTAL_URL @ ''/company_info'') (fundamentals_params ?w ''RELIANCE.NS'') 3
              = Inr \<lparr>status_code = 200, json = Inr sample_fundamentals_payload\<rparr>"
    by (simp add: http_ok_def)
  have h3: "status_code \<lparr>status_code = 200, json = Inr sample_fundamentals_payload\<rparr> = 200" by simp
  have h4: "json \<lparr>status_code = 200, json = Inr sample_fundamentals_payload\<rparr> = Inr (PDict ?kvs)"
    by (simp add: sample_fundamentals_payload_def)
  have "snd (get_fundamentals ?w ''RELIANCE.NS'') = overlay (PDict ?kvs)"
    by (rule fundamentals_success [OF is_indian_RELIANCE h2 h3 h4])
  then show ?thesis
    by (simp add: overlay_dict response_field_def dict_get_def)
qed

text \<open>
  C7, amended: on a successful call (status 200, the payload an object) the result has
  the twelve keys of the fixed shape; each ratio and each target is the response's value
  under its key, 0 when the key is missing; the recommendation is the response's, \<open>N/A\<close>
  when missing; the forecast record has its four keys; the currency is \<open>INR\<close>; and the
  \<open>shareholding\<close> value of the response, when there is one, is passed on unchanged.
\<close>

theorem fundamentals_success_overlay:
  assumes "is_indian_stock symbol"
    and "requests_get w (TD_FUNDAMENTAL_URL @ ''/company_info'') (fundamentals_params w symbol) 3 = Inr response"
    and "status_code response = 200" and "json response = Inr (PDict kvs)"
  shows "\<exists>sh. snd (get_fundamentals w symbol) =
     Inr (PDict
       [(''market_cap'', case map_of kvs ''market_cap'' of Some v \<Rightarrow> v | None \<Rightarrow> PInt 0),
        (''pe_ratio'', case map_of kvs ''pe'' of Some v \<Rightarrow> v | None \<Rightarrow> PInt 0),
        (''peg_ratio'', case map_of kvs ''peg'' of Some v \<Rightarrow> v | None \<Rightarrow> PInt 0),
        (''book_value'', case map_of kvs ''book_value'' of Some v \<Rightarrow> v | None \<Rightarrow> PInt 0),
        (''dividend_yield'', case map_of kvs ''dividend_yield'' of Some v \<Rightarrow> v | None \<Rightarrow> PInt 0),
        (''eps'', case map_of kvs ''eps'' of Some v \<Rightarrow> v | None \<Rightarrow> PInt 0),
        (''profit_margin'', case map_of kvs ''profit_margin'' of Some v \<Rightarrow> v | None \<Rightarrow> PInt 0),
        (''roe'', case map_of kvs ''roe'' of Some v \<Rightarrow> v | None \<Rightarrow> PInt 0),
        (''debt_to_equity'', case map_of kvs ''debt_to_equity'' of Some v \<Rightarrow> v | None \<Rightarrow> PInt 0),
        (''shareholding'', sh),
        (''forecast'',
           PDict [(''recommendation'', case map_of kvs ''recommendation'' of Some v \<Rightarrow> v | None \<Rightarrow> PStr ''N/A''),
                  (''targetMean'', case map_of kvs ''target_price'' of Some v \<Rightarrow> v | None \<Rightarrow> PInt 0),
                  (''targetLow'', case map_of kvs ''target_low'' of Some v \<Rightarrow> v | None \<Rightarrow> PInt 0),
                  (''targetHigh'', case map_of kvs ''target_high'' of Some v \<Rightarrow> v | None \<Rightarrow> PInt 0)]),
        (''currency'', PStr ''INR'')]) \<and>
     (\<forall>v. map_of kvs ''shareholding'' = Some v \<longrightarrow> sh = v)"
  unfolding fundamentals_success [OF assms] overlay_dict dict_get_def
  by (intro exI [of _ "case map_of kvs ''shareholding'' of Some v \<Rightarrow> v | None \<Rightarrow> PDict []"]) simp

theorem fundamentals_success_overlay_witness:
  "is_indian_stock ''RELIANCE.NS'' \<and>
   (\<exists>sh. snd (get_fundamentals (sample_env\<lparr>requests_get := http_ok sample_fundamentals_payload\<rparr>) ''RELIANCE.NS'') =
     Inr (PDict
       [(''market_cap'', PInt 0), (''pe_ratio'', PFloat 24.5), (''peg_ratio'', PInt 0),
        (''book_value'', PInt 0), (''dividend_yield'', PInt 0), (''eps'', PInt 0),
        (''profit_margin'', PInt 0), (''roe'', PInt 0), (''debt_to_equity'', PInt 0),
        (''shareholding'', sh),
        (''forecast'',
           PDict [(''recommendation'', PStr ''N/A''), (''targetMean'', PInt 0),
                  (''targetLow'', PInt 0), (''targetHigh'', PInt 0)]),
        (''currency'', PStr ''INR'')]) \<and>
     sh = PDict [(''promoters'', PFloat 50.3)])"
proof -
  let ?w = "sample_env\<lparr>requests_get := http_ok sample_fundamentals_payload\<rparr>"
  let ?kvs = "[(''pe'', PFloat 24.5), (''shareholding'', PDict [(''promoters'', PFloat 50.3)])]"
  have h1: "is_indian_stock ''RELIANCE.NS''" by (rule is_indian_RELIANCE)
  have h2: "requests_get ?w (TD_FUNDAMENTAL_URL @ ''/company_info'') (fundamentals_params ?w ''RELIANCE.NS'') 3
              = Inr \<lparr>status_code = 200, json = Inr sample_fundamentals_payload\<rparr>"
    by (simp add: http_ok_def)
  have h3: "status_code \<lparr>status_code = 200, json = Inr sample_fundamentals_payload\<rparr> = 200" by simp
  have h4: "json \<lparr>status_code = 200, json = Inr sample_fundamentals_payload\<rparr> = Inr (PDict ?kvs)"
    by (simp add: sample_fundamentals_payload_def)
  from fundamentals_success_overlay [OF h1 h2 h3 h4] h1 show ?thesis
    by auto
qed

section \<open>Absent credentials\<close>

lemma startup_never_raises: "\<exists>h. snd (startup_event TD user pass) = Inr h"
  by (simp add: startup_event_def split: option.splits sum.splits)

lemma quote_no_session:
  "td_app w = None \<Longrightarrow> fst (get_quote w symbol) = []"
  by (simp add: get_quote_def)

lemma history_params_user:
  "map_of (history_params w symbol period) ''user'' = Some (opt_str (TD_USER w)) \<and>
   map_of (history_params w symbol period) ''pass'' = Some (opt_str (TD_PASS w))"
  by (simp add: history_params_def Let_def)

lemma fundamentals_params_user:
  "map_of (fundamentals_params w symbol) ''user'' = Some (opt_str (TD_USER w)) \<and>
   map_of (fundamentals_params w symbol) ''pass'' = Some (opt_str (TD_PASS w))"
  by (simp add: fundamentals_params_def)

text \<open>
  C8, as stated: without credentials no handler attempts a vendor call. With
  \<^verbatim>\<open>TD_USER\<close> and \<^verbatim>\<open>TD_PASS\<close> unset and no session, \<open>get_history\<close> and
  \<open>get_fundamentals\<close> still send their HTTP request for a symbol routed to the vendor,
  with no user and no password in it.
\<close>

theorem no_credentials_history_still_calls:
  "TD_USER sample_env = None \<and> TD_PASS sample_env = None \<and>
   startup_event sample_TD (TD_USER sample_env) (TD_PASS sample_env) = ([], Inr (td_app sample_env)) \<and>
   fst (get_history sample_env ''RELIANCE.NS'' ''1mo'') =
     [HttpGet ''https://history.truedata.in/gethistory''
        [(''symbol'', PStr ''RELIANCE''), (''resolution'', PStr ''EOD''),
         (''from'', PStr ''240204''), (''to'', PStr ''240305''), (''response'', PStr ''json''),
         (''user'', PNone), (''pass'', PNone)] 5] \<and>
   fst (get_fundamentals sample_env ''RELIANCE.NS'') =
     [HttpGet ''https://api.truedata.in/fundamental/company_info''
        [(''symbol'', PStr ''RELIANCE''), (''user'', PNone), (''pass'', PNone)] 3]"
proof -
  have n: "now sample_env = \<lparr>year = 2024, month = 3, day = 5\<rparr>" by (simp add: sample_env_def)
  have c: "TD_USER sample_env = None \<and> TD_PASS sample_env = None \<and> td_app sample_env = None"
    by (simp add: sample_env_def)
  have p: "history_params sample_env ''RELIANCE.NS'' ''1mo'' =
        [(''symbol'', PStr ''RELIANCE''), (''resolution'', PStr ''EOD''),
         (''from'', PStr ''240204''), (''to'', PStr ''240305''), (''response'', PStr ''json''),
         (''user'', PNone), (''pass'', PNone)]"
    by (simp add: history_params_def history_range_def Let_def n sample_dates clean_RELIANCE opt_str_def c)
  have q: "fundamentals_params sample_env ''RELIANCE.NS'' =
        [(''symbol'', PStr ''RELIANCE''), (''user'', PNone), (''pass'', PNone)]"
    by (simp add: fundamentals_params_def clean_RELIANCE opt_str_def c)
  show ?thesis
    by (simp add: c startup_event_def history_events [OF is_indian_RELIANCE]
          fundamentals_events [OF is_indian_RELIANCE] p q TD_HISTORY_URL_def TD_FUNDAMENTAL_URL_def)
qed

text \<open>
  C8, amended: when \<^verbatim>\<open>TD_USER\<close> and \<^verbatim>\<open>TD_PASS\<close> are unset, startup makes no
  connection attempt, does not fail, and leaves the session unset; with the session
  unset \<open>get_quote\<close> makes no call and answers \<open>Disconnected\<close> for a symbol routed to
  the vendor; for a symbol on the mock path \<open>get_history\<close> and \<open>get_fundamentals\<close> make
  no call and return the mock series and the default record; for a symbol routed to the
  vendor each of them sends its one HTTP request, with no user and no password in it,
  and returns the mock series or the default record when that request raises or its
  status is not 200.
\<close>

theorem no_credentials_behaviour:
  assumes "TD_USER w = None" and "TD_PASS w = None"
  shows "startup_event TD (TD_USER w) (TD_PASS w) = ([], Inr None) \<and>
    (td_app w = None \<longrightarrow>
       (\<forall>symbol. fst (get_quote w symbol) = [] \<and>
          (is_indian_stock symbol \<longrightarrow>
             snd (get_quote w symbol) =
               Inr (PDict [(''symbol'', PStr symbol), (''price'', PInt 0),
                           (''status'', PStr ''Disconnected'')])))) \<and>
    (\<forall>symbol period. \<not> is_indian_stock symbol \<longrightarrow>
       get_history w symbol period = ([], Inr (PList (generate_mock_history 150 (now w) (random w)))) \<and>
       get_fundamentals w symbol = ([], Inr (empty_data symbol))) \<and>
    (\<forall>symbol period. is_indian_stock symbol \<longrightarrow>
       fst (get_history w symbol period) = [HttpGet TD_HISTORY_URL (history_params w symbol period) 5] \<and>
       map_of (history_params w symbol period) ''user'' = Some PNone \<and>
       map_of (history_params w symbol period) ''pass'' = Some PNone \<and>
       fst (get_fundamentals w symbol) =
         [HttpGet (TD_FUNDAMENTAL_URL @ ''/company_info'') (fundamentals_params w symbol) 3] \<and>
       map_of (fundamentals_params w symbol) ''user'' = Some PNone \<and>
       map_of (fundamentals_params w symbol) ''pass'' = Some PNone \<and>
       ((\<exists>e. requests_get w TD_HISTORY_URL (history_params w symbol period) 5 = Inl e) \<or>
        (\<exists>response. requests_get w TD_HISTORY_URL (history_params w symbol period) 5 = Inr response \<and>
           status_code response \<noteq> 200) \<longrightarrow>
          snd (get_history w symbol period) = Inr (PList (generate_mock_history 150 (now w) (random w)))) \<and>
       ((\<exists>e. requests_get w (TD_FUNDAMENTAL_URL @ ''/company_info'') (fundamentals_params w symbol) 3 = Inl e) \<or>
        (\<exists>response. requests_get w (TD_FUNDAMENTAL_URL @ ''/company_info'') (fundamentals_params w symbol) 3 = Inr response \<and>
           status_code response \<noteq> 200) \<longrightarrow>
          snd (get_fundamentals w symbol) = Inr (empty_data symbol)))"
proof (intro conjI allI impI)
  show "startup_event TD (TD_USER w) (TD_PASS w) = ([], Inr None)"
    using assms(1) by (simp add: startup_event_def)
next
  fix symbol assume "td_app w = None"
  then show "fst (get_quote w symbol) = []" by (rule quote_no_session)
next
  fix symbol assume "td_app w = None" "is_indian_stock symbol"
  then show "snd (get_quote w symbol) =
               Inr (PDict [(''symbol'', PStr symbol), (''price'', PInt 0),
                           (''status'', PStr ''Disconnected'')])"
    by (simp add: get_quote_def status_response_def)
next
  fix symbol period assume "\<not> is_indian_stock symbol"
  then show "get_history w symbol period = ([], Inr (PList (generate_mock_history 150 (now w) (random w))))"
    by (rule history_mock_path)
next
  fix symbol :: string and period :: string assume "\<not> is_indian_stock symbol"
  then show "get_fundamentals w symbol = ([], Inr (empty_data symbol))"
    by (rule fundamentals_mock_path)
next
  fix symbol period assume "is_indian_stock symbol"
  then show "fst (get_history w symbol period) = [HttpGet TD_HISTORY_URL (history_params w symbol period) 5]"
    by (rule history_events)
next
  fix symbol :: string and period :: string
  show "map_of (history_params w symbol period) ''user'' = Some PNone"
    using assms by (simp add: history_params_user opt_str_def)
next
  fix symbol :: string and period :: string
  show "map_of (history_params w symbol period) ''pass'' = Some PNone"
    using assms by (simp add: history_params_user opt_str_def)
next
  fix symbol :: string and period :: string assume "is_indian_stock symbol"
  then show "fst (get_fundamentals w symbol) =
         [HttpGet (TD_FUNDAMENTAL_URL @ ''/company_info'') (fundamentals_params w symbol) 3]"
    by (rule fundamentals_events)
next
  fix symbol :: string and period :: string
  show "map_of (fundamentals_params w symbol) ''user'' = Some PNone"
    using assms by (simp add: fundamentals_params_user opt_str_def)
next
  fix symbol :: string and period :: string
  show "map_of (fundamentals_params w symbol) ''pass'' = Some PNone"
    using assms by (simp add: fundamentals_params_user opt_str_def)
next
  fix symbol period
  assume "is_indian_stock symbol"
    and "(\<exists>e. requests_get w TD_HISTORY_URL (history_params w symbol period) 5 = Inl e) \<or>
        (\<exists>response. requests_get w TD_HISTORY_URL (history_params w symbol period) 5 = Inr response \<and>
           status_code response \<noteq> 200)"
  then show "snd (get_history w symbol period) = Inr (PList (generate_mock_history 150 (now w) (random w)))"
    by (auto simp: get_history_def history_try_def Let_def)
next
  fix symbol :: string and period :: string
  assume "(\<exists>e. requests_get w (TD_FUNDAMENTAL_URL @ ''/company_info'') (fundamentals_params w symbol) 3 = Inl e) \<or>
        (\<exists>response. requests_get w (TD_FUNDAMENTAL_URL @ ''/company_info'') (fundamentals_params w symbol) 3 = Inr response \<and>
           status_code response \<noteq> 200)"
  then show "snd (get_fundamentals w symbol) = Inr (empty_data symbol)"
    by (intro fundamentals_fallback) blast
qed

theorem no_credentials_behaviour_witness:
  "TD_USER sample_env = None \<and> TD_PASS sample_env = None \<and>
   map_of (history_params sample_env ''RELIANCE.NS'' ''1mo'') ''user'' = Some PNone \<and>
   map_of (history_params sample_env ''RELIANCE.NS'' ''1mo'') ''pass'' = Some PNone \<and>
   map_of (fundamentals_params sample_env ''RELIANCE.NS'') ''user'' = Some PNone \<and>
   map_of (fundamentals_params sample_env ''RELIANCE.NS'') ''pass'' = Some PNone \<and>
   startup_event sample_TD (TD_USER sample_env) (TD_PASS sample_env) = ([], Inr None) \<and>
   get_quote sample_env ''RELIANCE.NS'' =
     ([], Inr (PDict [(''symbol'', PStr ''RELIANCE.NS''), (''price'', PInt 0),
                      (''status'', PStr ''Disconnected'')])) \<and>
   get_history sample_env ''AAPL'' ''1mo'' =
     ([], Inr (PList (generate_mock_history 150 (now sample_env) (random sample_env)))) \<and>
   get_fundamentals sample_env ''AAPL'' = ([], Inr (empty_data ''AAPL'')) \<and>
   fst (get_history sample_env ''RELIANCE.NS'' ''1mo'') =
     [HttpGet TD_HISTORY_URL (history_params sample_env ''RELIANCE.NS'' ''1mo'') 5] \<and>
   snd (get_history sample_env ''RELIANCE.NS'' ''1mo'') =
     Inr (PList (generate_mock_history 150 (now sample_env) (random sample_env))) \<and>
   fst (get_fundamentals sample_env ''RELIANCE.NS'') =
     [HttpGet (TD_FUNDAMENTAL_URL @ ''/company_info'') (fundamentals_params sample_env ''RELIANCE.NS'') 3] \<and>
   snd (get_fundamentals sample_env ''RELIANCE.NS'') = Inr (empty_data ''RELIANCE.NS'')"
proof -
  have u: "TD_USER sample_env = None" by (simp add: sample_env_def)
  have s: "td_app sample_env = None" by (simp add: sample_env_def)
  have f1: "\<exists>e. requests_get sample_env TD_HISTORY_URL
                   (history_params sample_env ''RELIANCE.NS'' ''1mo'') 5 = Inl e"
    by (simp add: sample_env_def)
  have f2: "\<exists>e. requests_get sample_env (TD_FUNDAMENTAL_URL @ ''/company_info'')
                   (fundamentals_params sample_env ''RELIANCE.NS'') 3 = Inl e"
    by (simp add: sample_env_def)
  have pw: "TD_PASS sample_env = None" by (simp add: sample_env_def)
  note t = no_credentials_behaviour [OF u pw, of sample_TD]
  from t is_indian_RELIANCE
  have 0: "map_of (history_params sample_env ''RELIANCE.NS'' ''1mo'') ''user'' = Some PNone \<and>
   map_of (history_params sample_env ''RELIANCE.NS'' ''1mo'') ''pass'' = Some PNone \<and>
   map_of (fundamentals_params sample_env ''RELIANCE.NS'') ''user'' = Some PNone \<and>
   map_of (fundamentals_params sample_env ''RELIANCE.NS'') ''pass'' = Some PNone"
    by blast
  from t have 1: "startup_event sample_TD (TD_USER sample_env) (TD_PASS sample_env) = ([], Inr None)"
    by blast
  from t s is_indian_RELIANCE
  have "fst (get_quote sample_env ''RELIANCE.NS'') = [] \<and>
        snd (get_quote sample_env ''RELIANCE.NS'') =
          Inr (PDict [(''symbol'', PStr ''RELIANCE.NS''), (''price'', PInt 0),
                      (''status'', PStr ''Disconnected'')])"
    by blast
  then have 2: "get_quote sample_env ''RELIANCE.NS'' =
     ([], Inr (PDict [(''symbol'', PStr ''RELIANCE.NS''), (''price'', PInt 0),
                      (''status'', PStr ''Disconnected'')]))"
    by (simp add: prod_eq_iff)
  from t not_indian_AAPL
  have 3: "get_history sample_env ''AAPL'' ''1mo'' =
             ([], Inr (PList (generate_mock_history 150 (now sample_env) (random sample_env)))) \<and>
           get_fundamentals sample_env ''AAPL'' = ([], Inr (empty_data ''AAPL''))"
    by blast
  from t is_indian_RELIANCE f1 f2
  have 4: "fst (get_history sample_env ''RELIANCE.NS'' ''1mo'') =
     [HttpGet TD_HISTORY_URL (history_params sample_env ''RELIANCE.NS'' ''1mo'') 5] \<and>
   snd (get_history sample_env ''RELIANCE.NS'' ''1mo'') =
     Inr (PList (generate_mock_history 150 (now sample_env) (random sample_env))) \<and>
   fst (get_fundamentals sample_env ''RELIANCE.NS'') =
     [HttpGet (TD_FUNDAMENTAL_URL @ ''/company_info'') (fundamentals_params sample_env ''RELIANCE.NS'') 3] \<and>
   snd (get_fundamentals sample_env ''RELIANCE.NS'') = Inr (empty_data ''RELIANCE.NS'')"
    by blast
  from u pw 0 1 2 3 4 show ?thesis by blast
qed

section \<open>Mock history\<close>

subsection \<open>Rounding and the price walk\<close>


lemma round_half_even_cases:
  "round_half_even y = \<lfloor>y\<rfloor> \<or> round_half_even y = \<lfloor>y\<rfloor> + 1"
  by (simp add: round_half_even_def Let_def)

lemma round_half_even_error: "\<bar>of_int (round_half_even y) - y\<bar> \<le> 1 / 2"
proof -
  have "of_int \<lfloor>y\<rfloor> \<le> y" "y < of_int \<lfloor>y\<rfloor> + 1" by linarith+
  then show ?thesis
    by (auto simp: round_half_even_def Let_def abs_le_iff)
qed

lemma round_half_even_mono:
  assumes "x \<le> y"
  shows "round_half_even x \<le> round_half_even y"
proof (cases "\<lfloor>x\<rfloor> = \<lfloor>y\<rfloor>")
  case True
  with assms have "x - of_int \<lfloor>x\<rfloor> \<le> y - of_int \<lfloor>y\<rfloor>" by simp
  with True show ?thesis
    by (auto simp: round_half_even_def Let_def)
next
  case False
  with assms have "\<lfloor>x\<rfloor> < \<lfloor>y\<rfloor>" using floor_mono [OF assms] by linarith
  moreover have "round_half_even x \<le> \<lfloor>x\<rfloor> + 1" using round_half_even_cases [of x] by linarith
  moreover have "\<lfloor>y\<rfloor> \<le> round_half_even y" using round_half_even_cases [of y] by linarith
  ultimately show ?thesis by linarith
qed

lemma py_round_mono: "x \<le> y \<Longrightarrow> py_round x 2 \<le> py_round y 2"
  by (simp add: py_round_def divide_right_mono round_half_even_mono)

lemma py_round_error: "\<bar>py_round x 2 - x\<bar> \<le> 1 / 200"
proof -
  have "\<bar>of_int (round_half_even (x * 100)) - x * 100\<bar> \<le> 1 / 2"
    by (rule round_half_even_error)
  then show ?thesis
    by (simp add: py_round_def abs_le_iff field_simps)
qed

lemma volume_band:
  assumes "0 \<le> r" "r < 1"
  shows "1000 \<le> py_int (uniform r 1000 10000) \<and> py_int (uniform r 1000 10000) \<le> 10000"
proof -
  have "1000 \<le> uniform r 1000 10000" "uniform r 1000 10000 < 10000"
    using assms by (simp_all add: uniform_def)
  then show ?thesis
    by (simp add: py_int_def le_floor_iff floor_le_iff)
qed

lemma price_step_nonneg:
  assumes "0 \<le> r" "r < 1" "0 \<le> (price::real)"
  shows "0 \<le> price * (1 + (r - 0.5) * 0.03)"
proof -
  have "0 \<le> 1 + (r - 0.5) * 0.03" using assms by (simp add: field_simps)
  with assms show ?thesis by simp
qed

lemma rounded_ratio:
  fixes a b p q :: real
  assumes "\<bar>a - p\<bar> \<le> 1 / 200" and "\<bar>b - p * q\<bar> \<le> 1 / 200" and "0 \<le> q" and "q \<le> 101 / 100"
  shows "\<bar>b - a * q\<bar> \<le> 101 / 10000"
proof -
  have "\<bar>b - a * q\<bar> \<le> \<bar>b - p * q\<bar> + \<bar>(p - a) * q\<bar>"
    by (simp add: algebra_simps)
  also have "\<bar>(p - a) * q\<bar> = \<bar>a - p\<bar> * q"
    using assms(3) by (simp add: abs_mult abs_minus_commute)
  also have "\<bar>a - p\<bar> * q \<le> 1 / 200 * (101 / 100)"
    using assms by (intro mult_mono) simp_all
  finally show ?thesis using assms(2) by simp
qed

lemma candle_prices:
  assumes "0 \<le> (p::real)"
  shows "\<bar>py_round (p * 0.99) 2 - py_round p 2 * 0.99\<bar> \<le> 0.0101"
    and "\<bar>py_round (p * 1.01) 2 - py_round p 2 * 1.01\<bar> \<le> 0.0101"
    and "\<bar>py_round (p * 0.98) 2 - py_round p 2 * 0.98\<bar> \<le> 0.0101"
    and "py_round (p * 0.98) 2 \<le> py_round (p * 0.99) 2"
    and "py_round (p * 0.99) 2 \<le> py_round p 2"
    and "py_round p 2 \<le> py_round (p * 1.01) 2"
proof -
  show "\<bar>py_round (p * 0.99) 2 - py_round p 2 * 0.99\<bar> \<le> 0.0101"
    using rounded_ratio [OF py_round_error [of p] py_round_error [of "p * 0.99"]] by simp
  show "\<bar>py_round (p * 1.01) 2 - py_round p 2 * 1.01\<bar> \<le> 0.0101"
    using rounded_ratio [OF py_round_error [of p] py_round_error [of "p * 1.01"]] by simp
  show "\<bar>py_round (p * 0.98) 2 - py_round p 2 * 0.98\<bar> \<le> 0.0101"
    using rounded_ratio [OF py_round_error [of p] py_round_error [of "p * 0.98"]] by simp
  show "py_round (p * 0.98) 2 \<le> py_round (p * 0.99) 2"
    using assms by (intro py_round_mono) simp
  show "py_round (p * 0.99) 2 \<le> py_round p 2"
    using assms by (intro py_round_mono) simp
  show "py_round p 2 \<le> py_round (p * 1.01) 2"
    using assms by (intro py_round_mono) simp
qed

lemma mock_candles_ok:
  assumes "\<forall>k. 0 \<le> rnd k \<and> rnd k < 1" and "0 \<le> price"
  shows "\<forall>c \<in> set (mock_candles nw rnd is price). candle_ok c"
  using assms(2)
proof (induction "is" arbitrary: price)
  case Nil
  then show ?case by simp
next
  case (Cons i rest)
  let ?p = "price * (1 + (rnd (2 * i) - 0.5) * 0.03)"
  have r: "0 \<le> rnd (2 * i)" "rnd (2 * i) < 1" "0 \<le> rnd (2 * i + 1)" "rnd (2 * i + 1) < 1"
    using assms(1) by auto
  have p: "0 \<le> ?p" using r(1,2) Cons.prems by (rule price_step_nonneg)
  have "candle_ok (PDict
           [(''date'', PStr (strftime ''%Y-%m-%d'' (minus_days nw (30 - i)))),
            (''open'', PFloat (py_round (?p * 0.99) 2)),
            (''high'', PFloat (py_round (?p * 1.01) 2)),
            (''low'', PFloat (py_round (?p * 0.98) 2)),
            (''close'', PFloat (py_round ?p 2)),
            (''volume'', PInt (py_int (uniform (rnd (2 * i + 1)) 1000 10000)))])"
    unfolding candle_ok_def
    using candle_prices [OF p] volume_band [OF r(3,4)]
    by (intro exI conjI) (rule refl, simp_all)
  with Cons.IH [OF p] show ?case
    by (simp add: Let_def)
qed

subsection \<open>Dates and their strings\<close>


lemma digit_less_iff: "digit a < digit b \<longleftrightarrow> a mod 10 < b mod 10"
proof -
  have "(48 + a mod 10) mod 256 = 48 + a mod 10" "(48 + b mod 10) mod 256 = 48 + b mod 10"
    by simp_all
  then show ?thesis
    by (simp add: digit_def less_char_def)
qed

lemma digit_eq_iff: "digit a = digit b \<longleftrightarrow> a mod 10 = b mod 10"
proof -
  have "(48 + a mod 10) mod 256 = 48 + a mod 10" "(48 + b mod 10) mod 256 = 48 + b mod 10"
    by simp_all
  then show ?thesis
    by (simp add: digit_def)
qed

lemma append_same_less: "zs @ xs < zs @ ys \<longleftrightarrow> xs < (ys :: string)"
  by (induction zs) simp_all

lemma two_digits:
  fixes a b :: nat
  assumes "a mod 100 < b mod 100"
  shows "a div 10 mod 10 < b div 10 mod 10 \<or>
         (a div 10 mod 10 = b div 10 mod 10 \<and> a mod 10 < b mod 10)"
proof -
  have "a mod (10 * 10) = 10 * (a div 10 mod 10) + a mod 10"
       "b mod (10 * 10) = 10 * (b div 10 mod 10) + b mod 10"
    by (rule mod_mult2_eq)+
  moreover have "a mod 10 < 10" "b mod 10 < 10" by simp_all
  ultimately show ?thesis using assms by simp linarith
qed

lemma pad2_less:
  assumes "a mod 100 < b mod 100"
  shows "pad2 a @ xs < pad2 b @ ys"
  using two_digits [OF assms]
  by (auto simp: pad2_def digit_less_iff digit_eq_iff)

lemma pad4_pad2: "pad4 n = pad2 (n div 100) @ pad2 n"
proof -
  have "n div 100 div 10 = n div 1000" by (simp add: div_mult2_eq)
  then show ?thesis by (simp add: pad4_def pad2_def)
qed

lemma pad4_less:
  assumes "a < b" "b < 10000"
  shows "pad4 a @ xs < pad4 b @ ys"
proof (cases "a div 100 = b div 100")
  case True
  have "a = 100 * (a div 100) + a mod 100" "b = 100 * (b div 100) + b mod 100" by simp_all
  with True assms(1) have "a mod 100 < b mod 100" by linarith
  then have "pad2 a @ xs < pad2 b @ ys" by (rule pad2_less)
  with True show ?thesis by (simp add: pad4_pad2 append_same_less)
next
  case False
  have "a div 100 \<le> b div 100" using assms(1) by (simp add: div_le_mono)
  with False have "a div 100 < b div 100" by simp
  moreover have "b div 100 < 100" using assms(2) by simp
  ultimately have "(a div 100) mod 100 < (b div 100) mod 100" by simp
  then have "pad2 (a div 100) @ (pad2 a @ xs) < pad2 (b div 100) @ (pad2 b @ ys)"
    by (rule pad2_less)
  then show ?thesis by (simp add: pad4_pad2)
qed

lemma strftime_Ymd:
  "strftime ''%Y-%m-%d'' d = pad4 (year d) @ ''-'' @ pad2 (month d) @ ''-'' @ pad2 (day d)"
  by (simp add: strftime.simps)

lemma strftime_Ymd_mono:
  assumes "date_less a b" "year b < 10000" "month b < 100" "day b < 100"
  shows "strftime ''%Y-%m-%d'' a < strftime ''%Y-%m-%d'' b"
proof -
  consider "year a < year b"
    | "year a = year b" "month a < month b"
    | "year a = year b" "month a = month b" "day a < day b"
    using assms(1) by (auto simp: date_less_def)
  then show ?thesis
  proof cases
    case 1
    then show ?thesis unfolding strftime_Ymd using assms(2) by (rule pad4_less)
  next
    case 2
    have "pad2 (month a) @ (''-'' @ pad2 (day a)) < pad2 (month b) @ (''-'' @ pad2 (day b))"
      using 2(2) assms(3) by (intro pad2_less) simp
    then show ?thesis unfolding strftime_Ymd using 2(1) by (simp add: append_same_less)
  next
    case 3
    have "pad2 (day a) @ [] < pad2 (day b) @ []"
      using 3(3) assms(4) by (intro pad2_less) simp
    then show ?thesis unfolding strftime_Ymd using 3(1,2) by (simp add: append_same_less)
  qed
qed

lemma days_in_month_bounds: "28 \<le> days_in_month y m \<and> days_in_month y m \<le> 31"
  by (simp add: days_in_month_def)

lemma days_in_december: "days_in_month y 12 = 31"
  by (simp add: days_in_month_def)

lemma prev_day_less:
  assumes "valid_date d"
  shows "date_less (prev_day d) d"
proof -
  have "1 \<le> year d" "1 \<le> month d" "1 \<le> day d"
    using assms by (simp_all add: valid_date_def)
  then show ?thesis
    by (simp add: prev_day_def date_less_def)
qed

lemma prev_day_valid:
  assumes "valid_date d" "1 < year d"
  shows "valid_date (prev_day d) \<and> year d - 1 \<le> year (prev_day d)"
proof -
  have v: "year d \<le> 9999" "1 \<le> month d" "month d \<le> 12" "1 \<le> day d"
    "day d \<le> days_in_month (year d) (month d)"
    using assms(1) by (simp_all add: valid_date_def)
  consider "1 < day d" | "day d = 1" "1 < month d" | "day d = 1" "month d = 1"
    using v(2,4) by linarith
  then show ?thesis
  proof cases
    case 1
    then have "prev_day d = d\<lparr>day := day d - 1\<rparr>" by (simp add: prev_day_def)
    with 1 v assms(2) show ?thesis by (auto simp: valid_date_def)
  next
    case 2
    then have "prev_day d =
        \<lparr>year = year d, month = month d - 1, day = days_in_month (year d) (month d - 1)\<rparr>"
      by (simp add: prev_day_def)
    with 2 v assms(2) days_in_month_bounds [of "year d" "month d - 1"] show ?thesis
      by (auto simp: valid_date_def)
  next
    case 3
    then have "prev_day d = \<lparr>year = year d - 1, month = 12, day = 31\<rparr>"
      by (simp add: prev_day_def)
    with v assms(2) show ?thesis
      by (auto simp: valid_date_def days_in_december)
  qed
qed

lemma minus_days_Suc: "minus_days d (Suc n) = prev_day (minus_days d n)"
  by (induction n arbitrary: d) (simp_all add: minus_days.simps)

lemma minus_days_valid:
  "valid_date d \<Longrightarrow> n < year d \<Longrightarrow>
   valid_date (minus_days d n) \<and> year d - n \<le> year (minus_days d n)"
proof (induction n)
  case 0
  then show ?case by (simp add: minus_days.simps)
next
  case (Suc n)
  then have v: "valid_date (minus_days d n)" and y: "year d - n \<le> year (minus_days d n)"
    by simp_all
  from y Suc.prems(2) have "1 < year (minus_days d n)" by simp
  from prev_day_valid [OF v this] y show ?case
    unfolding minus_days_Suc by (intro conjI) (simp, linarith)
qed

lemma date_less_trans: "date_less a b \<Longrightarrow> date_less b c \<Longrightarrow> date_less a c"
  by (auto simp: date_less_def)

lemma minus_days_less:
  assumes "valid_date d" "n < year d" "m < n"
  shows "date_less (minus_days d n) (minus_days d m)"
  using assms(2,3)
proof (induction n)
  case 0
  then show ?case by simp
next
  case (Suc n)
  have v: "valid_date (minus_days d n)"
    using minus_days_valid [OF assms(1), of n] Suc.prems(1) by simp
  have step: "date_less (minus_days d (Suc n)) (minus_days d n)"
    unfolding minus_days_Suc using v by (rule prev_day_less)
  show ?case
  proof (cases "m = n")
    case True
    with step show ?thesis by simp
  next
    case False
    with Suc.prems have "m < n" "n < year d" by simp_all
    with Suc.IH have "date_less (minus_days d n) (minus_days d m)" by simp
    with step show ?thesis by (rule date_less_trans)
  qed
qed

lemma mock_candles_dates:
  "map candle_date (mock_candles nw rnd is price)
     = map (\<lambda>i. strftime ''%Y-%m-%d'' (minus_days nw (30 - i))) is"
  by (induction "is" arbitrary: price) (simp_all add: Let_def candle_date_def)

lemma mock_dates_ascending:
  assumes "valid_date nw" "30 < year nw"
  shows "sorted_wrt (<) (map (\<lambda>i. strftime ''%Y-%m-%d'' (minus_days nw (30 - i))) [0..<30])"
proof -
  have "strftime ''%Y-%m-%d'' (minus_days nw (30 - i)) < strftime ''%Y-%m-%d'' (minus_days nw (30 - j))"
    if "i < j" "j < 30" for i j
  proof -
    have l: "date_less (minus_days nw (30 - i)) (minus_days nw (30 - j))"
      using that assms by (intro minus_days_less) simp_all
    have "valid_date (minus_days nw (30 - j))"
      using minus_days_valid [OF assms(1), of "30 - j"] assms(2) by simp
    then have "year (minus_days nw (30 - j)) < 10000 \<and> month (minus_days nw (30 - j)) < 100 \<and>
               day (minus_days nw (30 - j)) < 100"
      using days_in_month_bounds [of "year (minus_days nw (30 - j))" "month (minus_days nw (30 - j))"]
      by (simp add: valid_date_def)
    with l show ?thesis by (intro strftime_Ymd_mono) simp_all
  qed
  then show ?thesis
    by (simp add: sorted_wrt_iff_nth_less)
qed

subsection \<open>The generated series\<close>

lemma sample_date_30:
  "strftime ''%Y-%m-%d'' (minus_days \<lparr>year = 2024, month = 3, day = 5\<rparr> 30) = ''2024-02-04''"
  by code_simp

lemma valid_sample_date: "valid_date \<lparr>year = 2024, month = 3, day = 5\<rparr>"
  by (simp add: valid_date_def days_in_month_def)

lemma upt_0_30: "[0..<30] = 0 # [1..<30]"
  by (simp add: upt_conv_Cons)

lemma sample_first_candle:
  "hd (generate_mock_history 150 \<lparr>year = 2024, month = 3, day = 5\<rparr> (\<lambda>n. 1 / 2)) =
     PDict [(''date'', PStr ''2024-02-04''), (''open'', PFloat 148.5), (''high'', PFloat 151.5),
            (''low'', PFloat 147), (''close'', PFloat 150), (''volume'', PInt 5500)]"
  by (simp add: generate_mock_history_def upt_0_30 Let_def sample_date_30 py_round_def
        round_half_even_def py_int_def uniform_def)

text \<open>
  The order of low, open, close and high rests on the price being positive. With a
  negative base price, which no caller passes, it is reversed.
\<close>

lemma negative_base_first_candle:
  "hd (generate_mock_history (- 150) \<lparr>year = 2024, month = 3, day = 5\<rparr> (\<lambda>n. 1 / 2)) =
     PDict [(''date'', PStr ''2024-02-04''), (''open'', PFloat (- 148.5)), (''high'', PFloat (- 151.5)),
            (''low'', PFloat (- 147)), (''close'', PFloat (- 150)), (''volume'', PInt 5500)]"
  by (simp add: generate_mock_history_def upt_0_30 Let_def sample_date_30 py_round_def
        round_half_even_def py_int_def uniform_def)

text \<open>
  C9. The program calls the generator with its default base price 150 only. Whatever
  the random draws (each in the interval from 0 to 1, 1 excluded) and the day (a valid
  date from the year 1001 on, so that \<^verbatim>\<open>%Y\<close> prints four digits for all 30 days), the
  result has exactly 30 candles; their dates are the 30 days before today, oldest
  first, so the date strings ascend; and in each candle open, high and low are within
  0.0101 of 0.99, 1.01 and 0.98 times the close, low is at most open and close, open and
  close are at most high, and the volume is between 1000 and 10000.
\<close>

theorem mock_history_shape:
  assumes "\<forall>k. 0 \<le> rnd k \<and> rnd k < 1" and "valid_date nw" and "1001 \<le> year nw"
  shows "length (generate_mock_history 150 nw rnd) = 30 \<and>
    map candle_date (generate_mock_history 150 nw rnd)
      = map (\<lambda>i. strftime ''%Y-%m-%d'' (minus_days nw (30 - i))) [0..<30] \<and>
    sorted_wrt (<) (map candle_date (generate_mock_history 150 nw rnd)) \<and>
    (\<forall>c \<in> set (generate_mock_history 150 nw rnd).
       \<exists>d opn hi lo cl vol.
         c = PDict [(''date'', PStr d), (''open'', PFloat opn), (''high'', PFloat hi),
                    (''low'', PFloat lo), (''close'', PFloat cl), (''volume'', PInt vol)] \<and>
         \<bar>opn - cl * 0.99\<bar> \<le> 0.0101 \<and> \<bar>hi - cl * 1.01\<bar> \<le> 0.0101 \<and>
         \<bar>lo - cl * 0.98\<bar> \<le> 0.0101 \<and>
         lo \<le> opn \<and> opn \<le> hi \<and> lo \<le> cl \<and> cl \<le> hi \<and> 1000 \<le> vol \<and> vol \<le> 10000)"
proof (intro conjI)
  show "length (generate_mock_history 150 nw rnd) = 30"
    by (rule length_generate_mock_history)
  show d: "map candle_date (generate_mock_history 150 nw rnd)
      = map (\<lambda>i. strftime ''%Y-%m-%d'' (minus_days nw (30 - i))) [0..<30]"
    by (simp add: generate_mock_history_def mock_candles_dates)
  have "30 < year nw" using assms(3) by simp
  with assms(2) show "sorted_wrt (<) (map candle_date (generate_mock_history 150 nw rnd))"
    unfolding d by (rule mock_dates_ascending)
  have "\<forall>c \<in> set (mock_candles nw rnd [0..<30] 150). candle_ok c"
    using assms(1) by (rule mock_candles_ok) simp
  then show "\<forall>c \<in> set (generate_mock_history 150 nw rnd).
       \<exists>d opn hi lo cl vol.
         c = PDict [(''date'', PStr d), (''open'', PFloat opn), (''high'', PFloat hi),
                    (''low'', PFloat lo), (''close'', PFloat cl), (''volume'', PInt vol)] \<and>
         \<bar>opn - cl * 0.99\<bar> \<le> 0.0101 \<and> \<bar>hi - cl * 1.01\<bar> \<le> 0.0101 \<and>
         \<bar>lo - cl * 0.98\<bar> \<le> 0.0101 \<and>
         lo \<le> opn \<and> opn \<le> hi \<and> lo \<le> cl \<and> cl \<le> hi \<and> 1000 \<le> vol \<and> vol \<le> 10000"
    unfolding generate_mock_history_def candle_ok_def .
qed

theorem mock_history_shape_witness:
  "valid_date \<lparr>year = 2024, month = 3, day = 5\<rparr> \<and>
   length (generate_mock_history 150 \<lparr>year = 2024, month = 3, day = 5\<rparr> (\<lambda>n. 1 / 2)) = 30 \<and>
   sorted_wrt (<) (map candle_date
     (generate_mock_history 150 \<lparr>year = 2024, month = 3, day = 5\<rparr> (\<lambda>n. 1 / 2))) \<and>
   hd (generate_mock_history 150 \<lparr>year = 2024, month = 3, day = 5\<rparr> (\<lambda>n. 1 / 2)) =
     PDict [(''date'', PStr ''2024-02-04''), (''open'', PFloat 148.5), (''high'', PFloat 151.5),
            (''low'', PFloat 147), (''close'', PFloat 150), (''volume'', PInt 5500)] \<and>
   (\<exists>d opn hi lo cl vol.
      hd (generate_mock_history 150 \<lparr>year = 2024, month = 3, day = 5\<rparr> (\<lambda>n. 1 / 2)) =
        PDict [(''date'', PStr d), (''open'', PFloat opn), (''high'', PFloat hi),
               (''low'', PFloat lo), (''close'', PFloat cl), (''volume'', PInt vol)] \<and>
      \<bar>opn - cl * 0.99\<bar> \<le> 0.0101 \<and> \<bar>hi - cl * 1.01\<bar> \<le> 0.0101 \<and>
      \<bar>lo - cl * 0.98\<bar> \<le> 0.0101 \<and>
      lo \<le> opn \<and> opn \<le> hi \<and> lo \<le> cl \<and> cl \<le> hi \<and> 1000 \<le> vol \<and> vol \<le> 10000)"
proof -
  let ?nw = "\<lparr>year = 2024, month = 3, day = 5\<rparr>"
  let ?rnd = "\<lambda>n::nat. 1 / 2 :: real"
  have h1: "\<forall>k. 0 \<le> ?rnd k \<and> ?rnd k < 1" by simp
  have h2: "valid_date ?nw" by (rule valid_sample_date)
  have h3: "1001 \<le> year ?nw" by simp
  note t = mock_history_shape [OF h1 h2 h3]
  from t have len: "length (generate_mock_history 150 ?nw ?rnd) = 30" by blast
  then have "generate_mock_history 150 ?nw ?rnd \<noteq> []" by auto
  then have m: "hd (generate_mock_history 150 ?nw ?rnd) \<in> set (generate_mock_history 150 ?nw ?rnd)"
    by (rule hd_in_set)
  from t have s: "sorted_wrt (<) (map candle_date (generate_mock_history 150 ?nw ?rnd))" by blast
  from t m have p: "\<exists>d opn hi lo cl vol.
      hd (generate_mock_history 150 ?nw ?rnd) =
        PDict [(''date'', PStr d), (''open'', PFloat opn), (''high'', PFloat hi),
               (''low'', PFloat lo), (''close'', PFloat cl), (''volume'', PInt vol)] \<and>
      \<bar>opn - cl * 0.99\<bar> \<le> 0.0101 \<and> \<bar>hi - cl * 1.01\<bar> \<le> 0.0101 \<and>
      \<bar>lo - cl * 0.98\<bar> \<le> 0.0101 \<and>
      lo \<le> opn \<and> opn \<le> hi \<and> lo \<le> cl \<and> cl \<le> hi \<and> 1000 \<le> vol \<and> vol \<le> 10000"
    by blast
  from h2 len s sample_first_candle p show ?thesis by blast
qed

end
